theory Spec2Isabelle
  imports Main
begin

section \<open>Python values and the operations the client applies to them\<close>

text \<open>
  The client is one Python module, \<^verbatim>\<open>main.py\<close>. Everything it handles at run time is
  either a string or a value decoded from a JSON response body, so one datatype of
  dynamic values is enough. Strings are byte strings (\<^typ>\<open>string\<close>); the string
  operations below are those of Python on the ASCII range. A float is kept as the text
  Python prints for it, since the client never computes with one.
\<close>

datatype json =
    JNull
  | JBool bool
  | JInt int
  | JFloat string
  | JStr string
  | JArr "json list"
  | JObj "(string \<times> json) list"

text \<open>An exception is its class name and the message \<^verbatim>\<open>str(e)\<close> gives.\<close>

datatype exn = Exn (exn_class: string) (exn_message: string)

abbreviation sq :: char where
  "sq \<equiv> CHR 0x27"

definition KeyError :: "string \<Rightarrow> exn" where
  "KeyError k = Exn ''KeyError'' k"

definition TypeError :: "string \<Rightarrow> exn" where
  "TypeError m = Exn ''TypeError'' m"

definition AttributeError :: "string \<Rightarrow> exn" where
  "AttributeError m = Exn ''AttributeError'' m"

definition IndexError :: "string \<Rightarrow> exn" where
  "IndexError m = Exn ''IndexError'' m"

definition EOFError :: exn where
  "EOFError = Exn ''EOFError'' ''EOF when reading a line''"

fun type_name :: "json \<Rightarrow> string" where
  "type_name JNull = ''NoneType''"
| "type_name (JBool b) = ''bool''"
| "type_name (JInt i) = ''int''"
| "type_name (JFloat r) = ''float''"
| "type_name (JStr s) = ''str''"
| "type_name (JArr xs) = ''list''"
| "type_name (JObj kvs) = ''dict''"

subsection \<open>Decimal numerals: \<^verbatim>\<open>str(i)\<close> and \<^verbatim>\<open>int(s)\<close>\<close>

definition digit_char :: "nat \<Rightarrow> char" where
  "digit_char d = ''0123456789'' ! d"

definition digit_val :: "char \<Rightarrow> nat option" where
  "digit_val c = map_of (zip ''0123456789'' [0, 1, 2, 3, 4, 5, 6, 7, 8, 9]) c"

definition is_digit :: "char \<Rightarrow> bool" where
  "is_digit c = (digit_val c \<noteq> None)"

fun str_nat :: "nat \<Rightarrow> string" where
  "str_nat n =
     (if n < 10 then [digit_char n] else str_nat (n div 10) @ [digit_char (n mod 10)])"

declare str_nat.simps [simp del]

definition str_int :: "int \<Rightarrow> string" where
  "str_int i = (if i < 0 then CHR ''-'' # str_nat (nat (- i)) else str_nat (nat i))"

text \<open>
  \<^verbatim>\<open>str.strip()\<close> on a string of ASCII characters: leading and trailing white space
  removed (tab, line feed, vertical tab, form feed, carriage return, the four separators
  \<^verbatim>\<open>0x1C\<close> to \<^verbatim>\<open>0x1F\<close>, and the space).
\<close>

definition is_space :: "char \<Rightarrow> bool" where
  "is_space c = (c \<in> set [CHR 0x09, CHR 0x0A, CHR 0x0B, CHR 0x0C, CHR 0x0D,
                            CHR 0x1C, CHR 0x1D, CHR 0x1E, CHR 0x1F, CHR 0x20])"

definition ascii_strip :: "string \<Rightarrow> string" where
  "ascii_strip s = rev (dropWhile is_space (rev (dropWhile is_space s)))"

text \<open>
  The digits of a Python integer literal as \<^verbatim>\<open>int()\<close> reads it: decimal digits, with
  single underscores allowed between two digits. \<open>accum\<close> folds the digits read so far.
\<close>

fun underscores_ok :: "string \<Rightarrow> bool" where
  "underscores_ok [] = True"
| "underscores_ok [c] = True"
| "underscores_ok (c # d # cs) =
     ((c = CHR ''_'' \<longrightarrow> d \<noteq> CHR ''_'') \<and> underscores_ok (d # cs))"

definition accum :: "nat \<Rightarrow> char \<Rightarrow> nat" where
  "accum a c = (case digit_val c of Some d \<Rightarrow> 10 * a + d | None \<Rightarrow> a)"

definition py_nat :: "string \<Rightarrow> nat option" where
  "py_nat s =
     (if s \<noteq> [] \<and> is_digit (hd s) \<and> is_digit (last s)
         \<and> list_all (\<lambda>c. is_digit c \<or> c = CHR ''_'') s \<and> underscores_ok s
      then Some (foldl accum 0 s) else None)"

text \<open>
  \<^verbatim>\<open>int(s)\<close> on a string of ASCII characters: \<open>None\<close> stands for \<^verbatim>\<open>ValueError\<close>.
\<close>

definition ascii_int :: "string \<Rightarrow> int option" where
  "ascii_int s =
     (case ascii_strip s of
        [] \<Rightarrow> None
      | c # r \<Rightarrow>
          if c = CHR ''+'' then map_option int (py_nat r)
          else if c = CHR ''-'' then map_option (\<lambda>n. - int n) (py_nat r)
          else map_option int (py_nat (c # r)))"

subsection \<open>Iteration, subscription, length, lower-casing\<close>

text \<open>\<^verbatim>\<open>for x in v\<close>: a list yields its elements, a dict its keys, a string its characters.\<close>

fun py_iter :: "json \<Rightarrow> exn + json list" where
  "py_iter (JArr xs) = Inr xs"
| "py_iter (JObj kvs) = Inr (map (\<lambda>kv. JStr (fst kv)) kvs)"
| "py_iter (JStr s) = Inr (map (\<lambda>c. JStr [c]) s)"
| "py_iter v = Inl (TypeError (sq # type_name v @ [sq] @ '' object is not iterable''))"

text \<open>\<^verbatim>\<open>x["name"]\<close>.\<close>

fun getitem_name :: "json \<Rightarrow> exn + json" where
  "getitem_name (JObj kvs) =
     (case map_of kvs ''name'' of
        Some v \<Rightarrow> Inr v
      | None \<Rightarrow> Inl (KeyError (sq # ''name'' @ [sq])))"
| "getitem_name (JArr xs) =
     Inl (TypeError ''list indices must be integers or slices, not str'')"
| "getitem_name (JStr s) =
     Inl (TypeError (''string indices must be integers, not '' @ sq # ''str'' @ [sq]))"
| "getitem_name v =
     Inl (TypeError (sq # type_name v @ [sq] @ '' object is not subscriptable''))"

text \<open>\<^verbatim>\<open>xs[i]\<close> on a Python list: a negative index counts from the end.\<close>

definition list_getitem :: "'a list \<Rightarrow> int \<Rightarrow> string \<Rightarrow> exn + 'a" where
  "list_getitem xs i what =
     (if 0 \<le> i \<and> i < int (length xs) then Inr (xs ! nat i)
      else if i < 0 \<and> - int (length xs) \<le> i then Inr (xs ! nat (int (length xs) + i))
      else Inl (IndexError (what @ '' index out of range'')))"

text \<open>\<^verbatim>\<open>v[i]\<close> for an integer \<open>i\<close>.\<close>

fun py_getitem :: "json \<Rightarrow> int \<Rightarrow> exn + json" where
  "py_getitem (JArr xs) i = list_getitem xs i ''list''"
| "py_getitem (JStr s) i =
     (case list_getitem s i ''string'' of Inl e \<Rightarrow> Inl e | Inr c \<Rightarrow> Inr (JStr [c]))"
| "py_getitem (JObj kvs) i = Inl (KeyError (str_int i))"
| "py_getitem v i =
     Inl (TypeError (sq # type_name v @ [sq] @ '' object is not subscriptable''))"

text \<open>\<^verbatim>\<open>len(v)\<close>.\<close>

fun py_len :: "json \<Rightarrow> exn + nat" where
  "py_len (JArr xs) = Inr (length xs)"
| "py_len (JObj kvs) = Inr (length kvs)"
| "py_len (JStr s) = Inr (length s)"
| "py_len v =
     Inl (TypeError (''object of type '' @ sq # type_name v @ [sq] @ '' has no len()''))"

definition lower_char :: "char \<Rightarrow> char" where
  "lower_char c =
     (case map_of (zip ''ABCDEFGHIJKLMNOPQRSTUVWXYZ'' ''abcdefghijklmnopqrstuvwxyz'') c of
        Some d \<Rightarrow> d
      | None \<Rightarrow> c)"

definition ascii_lower :: "string \<Rightarrow> string" where
  "ascii_lower s = map lower_char s"

section \<open>The world the client runs in\<close>

datatype request =
    GET string
  | POST string "(string \<times> string \<times> string) list" nat

record response =
  status_code :: int
  body_json :: "exn + json"

text \<open>
  What one run cannot decide itself: the file system (\<open>path_exists\<close> is
  \<^verbatim>\<open>os.path.exists\<close>, \<open>read_bytes\<close> the bytes \<^verbatim>\<open>open\<close> and \<^verbatim>\<open>read\<close> find or the
  \<^verbatim>\<open>OSError\<close> they raise), the text codec of the locale, the server (an exception is
  a failure of the connection; \<open>body_json\<close> is what \<^verbatim>\<open>response.json()\<close> returns or
  raises), and the library functions the client calls on values it does not choose:
  \<^verbatim>\<open>str()\<close> of a list or dict, \<^verbatim>\<open>json.dumps(_, indent=2)\<close>, and what
  \<^verbatim>\<open>str.lower\<close>, \<^verbatim>\<open>str.strip\<close> and \<^verbatim>\<open>int\<close> do with a string that has characters
  outside ASCII. A string is the UTF-8 encoding of the Python string; on a string of
  ASCII characters the three functions are defined here, and elsewhere they are the
  Unicode tables of the interpreter, which the world carries.
\<close>

record world =
  path_exists :: "string \<Rightarrow> bool"
  read_bytes :: "string \<Rightarrow> exn + string"
  decode :: "string \<Rightarrow> exn + string"
  server :: "request \<Rightarrow> exn + response"
  container_repr :: "json \<Rightarrow> string"
  json_dumps :: "json \<Rightarrow> string"
  unicode_lower :: "string \<Rightarrow> string"
  unicode_strip :: "string \<Rightarrow> string"
  unicode_int :: "string \<Rightarrow> int option"
  float_repr :: "string \<Rightarrow> string"

text \<open>The characters of ASCII are those below \<^verbatim>\<open>0x80\<close>.\<close>

definition is_ascii :: "string \<Rightarrow> bool" where
  "is_ascii s = list_all (\<lambda>c. \<not> digit7 c) s"

text \<open>\<^verbatim>\<open>s.lower()\<close>, \<^verbatim>\<open>s.strip()\<close> and \<^verbatim>\<open>int(s)\<close> for a string \<open>s\<close>.\<close>

definition str_lower :: "world \<Rightarrow> string \<Rightarrow> string" where
  "str_lower w s = (if is_ascii s then ascii_lower s else unicode_lower w s)"

definition py_strip :: "world \<Rightarrow> string \<Rightarrow> string" where
  "py_strip w s = (if is_ascii s then ascii_strip s else unicode_strip w s)"

definition py_int :: "world \<Rightarrow> string \<Rightarrow> int option" where
  "py_int w s = (if is_ascii s then ascii_int s else unicode_int w s)"

text \<open>\<^verbatim>\<open>v.lower()\<close>: only a string has the method.\<close>

fun py_lower :: "world \<Rightarrow> json \<Rightarrow> exn + json" where
  "py_lower w (JStr s) = Inr (JStr (str_lower w s))"
| "py_lower w v =
     Inl (AttributeError (sq # type_name v @ [sq] @ '' object has no attribute ''
            @ sq # ''lower'' @ [sq]))"

text \<open>
  What a run does, in order. \<open>Print\<close> carries the markup text handed to
  \<^verbatim>\<open>console.print\<close>, \<open>SpinnerStart\<close> the description of the task shown by
  \<^verbatim>\<open>Progress\<close>, \<open>Ask\<close> one showing of the prompt with its choices, and \<open>Http\<close> a
  request as handed to the client: the URL is the string the f-string produced.
\<close>

datatype event =
    Print string
  | SpinnerStart string
  | SpinnerStop
  | Ask string "string list"
  | ClientOpen
  | ClientClose
  | Http request

record state =
  trace :: "event list"
  stdin :: "string list"

text \<open>
  A step ends normally, with an exception, or with \<^verbatim>\<open>SystemExit\<close> (which is not an
  \<^verbatim>\<open>Exception\<close>, so no \<^verbatim>\<open>except Exception\<close> catches it).
\<close>

datatype 'a result = Ok 'a | Raise exn | SysExit int

type_synonym 'a action = "state \<Rightarrow> 'a result \<times> state"

definition ret :: "'a \<Rightarrow> 'a action" where
  "ret x s = (Ok x, s)"

definition bind :: "'a action \<Rightarrow> ('a \<Rightarrow> 'b action) \<Rightarrow> 'b action" where
  "bind m f s =
     (case m s of
        (Ok x, s') \<Rightarrow> f x s'
      | (Raise e, s') \<Rightarrow> (Raise e, s')
      | (SysExit c, s') \<Rightarrow> (SysExit c, s'))"

definition py_raise :: "exn \<Rightarrow> 'a action" where
  "py_raise e s = (Raise e, s)"

definition sys_exit :: "int \<Rightarrow> 'a action" where
  "sys_exit c s = (SysExit c, s)"

definition lift :: "exn + 'a \<Rightarrow> 'a action" where
  "lift r = (case r of Inl e \<Rightarrow> py_raise e | Inr x \<Rightarrow> ret x)"

definition emit :: "event \<Rightarrow> unit action" where
  "emit ev s = (Ok (), s\<lparr>trace := trace s @ [ev]\<rparr>)"

definition console_print :: "string \<Rightarrow> unit action" where
  "console_print text = emit (Print text)"

text \<open>
  The \<^verbatim>\<open>with\<close> blocks: the spinner of \<^verbatim>\<open>Progress\<close> and the HTTP client are released
  however the body ends.
\<close>

definition with_progress :: "string \<Rightarrow> 'a action \<Rightarrow> 'a action" where
  "with_progress description body s =
     (case body (s\<lparr>trace := trace s @ [SpinnerStart description]\<rparr>) of
        (r, s') \<Rightarrow> (r, s'\<lparr>trace := trace s' @ [SpinnerStop]\<rparr>))"

definition with_client :: "'a action \<Rightarrow> 'a action" where
  "with_client body s =
     (case body (s\<lparr>trace := trace s @ [ClientOpen]\<rparr>) of
        (r, s') \<Rightarrow> (r, s'\<lparr>trace := trace s' @ [ClientClose]\<rparr>))"

definition client_request :: "world \<Rightarrow> request \<Rightarrow> response action" where
  "client_request w rq = bind (emit (Http rq)) (\<lambda>_. lift (server w rq))"

text \<open>
  The f-string placeholder \<^verbatim>\<open>{x}\<close> is \<^verbatim>\<open>str(x)\<close>: a string is itself.
\<close>

definition py_str :: "world \<Rightarrow> json \<Rightarrow> string" where
  "py_str w v =
     (case v of
        JStr s \<Rightarrow> s
      | JNull \<Rightarrow> ''None''
      | JBool b \<Rightarrow> (if b then ''True'' else ''False'')
      | JInt i \<Rightarrow> str_int i
      | JFloat r \<Rightarrow> r
      | _ \<Rightarrow> container_repr w v)"

subsection \<open>The prompt\<close>

text \<open>
  \<^verbatim>\<open>IntPrompt.ask(prompt, choices=cs)\<close> of the \<^verbatim>\<open>rich\<close> library: it shows the prompt,
  reads a line, and accepts it when the stripped line converts with \<^verbatim>\<open>int\<close> and is one
  of the choices; otherwise it asks again. At the end of the input \<^verbatim>\<open>input()\<close> raises
  \<^verbatim>\<open>EOFError\<close>. \<open>prompt_loop\<close> returns how often the prompt was shown, and the value
  with the lines left.
\<close>

definition process_response :: "world \<Rightarrow> string list \<Rightarrow> string \<Rightarrow> int option" where
  "process_response w cs line =
     (let v = py_strip w line in
      case py_int w v of
        None \<Rightarrow> None
      | Some k \<Rightarrow> if v \<in> set cs then Some k else None)"

fun prompt_loop ::
  "world \<Rightarrow> string list \<Rightarrow> string list \<Rightarrow> nat \<times> (int \<times> string list) option" where
  "prompt_loop w cs [] = (1, None)"
| "prompt_loop w cs (line # rest) =
     (case process_response w cs line of
        Some k \<Rightarrow> (1, Some (k, rest))
      | None \<Rightarrow> (case prompt_loop w cs rest of (n, r) \<Rightarrow> (Suc n, r)))"

definition IntPrompt_ask :: "world \<Rightarrow> string \<Rightarrow> string list \<Rightarrow> int action" where
  "IntPrompt_ask w prompt cs s =
     (case prompt_loop w cs (stdin s) of
        (n, Some (k, rest)) \<Rightarrow>
          (Ok k, s\<lparr>trace := trace s @ replicate n (Ask prompt cs), stdin := rest\<rparr>)
      | (n, None) \<Rightarrow>
          (Raise EOFError, s\<lparr>trace := trace s @ replicate n (Ask prompt cs), stdin := []\<rparr>))"

text \<open>\<^verbatim>\<open>[str(i) for i in range(1, n + 1)]\<close>.\<close>

definition choices :: "nat \<Rightarrow> string list" where
  "choices n = map (\<lambda>i. str_int (int i)) [1..<Suc n]"

section \<open>The client\<close>

definition BASE_URL :: string where
  "BASE_URL = ''http://localhost:8000''"

definition fetch_leaderboards :: "world \<Rightarrow> json action" where
  "fetch_leaderboards w =
     with_client
       (bind (client_request w (GET (BASE_URL @ ''/leaderboards''))) (\<lambda>response.
          if status_code response \<noteq> 200
          then bind (console_print ''[red]Failed to fetch leaderboards[/red]'')
                 (\<lambda>_. sys_exit 1)
          else lift (body_json response)))"

definition fetch_available_gpus :: "world \<Rightarrow> json \<Rightarrow> json \<Rightarrow> json action" where
  "fetch_available_gpus w leaderboard runner =
     with_client
       (bind (client_request w
                (GET (BASE_URL @ ''/'' @ py_str w leaderboard @ ''/'' @ py_str w runner
                        @ ''/gpus''))) (\<lambda>response.
          if status_code response \<noteq> 200
          then bind (console_print ''[red]Failed to fetch GPUs[/red]'') (\<lambda>_. sys_exit 1)
          else lift (body_json response)))"

text \<open>
  \<^verbatim>\<open>open(filepath, "r").read()\<close>: the bytes are decoded and, in text mode, every
  \<^verbatim>\<open>\r\n\<close> and every single \<^verbatim>\<open>\r\<close> becomes \<^verbatim>\<open>\n\<close>.
\<close>

fun universal_newlines :: "string \<Rightarrow> string" where
  "universal_newlines [] = []"
| "universal_newlines [c] = [if c = CHR 0x0D then CHR 0x0A else c]"
| "universal_newlines (c # d # cs) =
     (if c = CHR 0x0D \<and> d = CHR 0x0A then CHR 0x0A # universal_newlines cs
      else if c = CHR 0x0D then CHR 0x0A # universal_newlines (d # cs)
      else c # universal_newlines (d # cs))"

definition read_text :: "world \<Rightarrow> string \<Rightarrow> exn + string" where
  "read_text w filepath =
     (case read_bytes w filepath of
        Inl e \<Rightarrow> Inl e
      | Inr bytes \<Rightarrow>
          (case decode w bytes of
             Inl e \<Rightarrow> Inl e
           | Inr text \<Rightarrow> Inr (universal_newlines text)))"

text \<open>\<^verbatim>\<open>os.path.basename\<close> (POSIX): what follows the last slash.\<close>

definition basename :: "string \<Rightarrow> string" where
  "basename p = rev (takeWhile (\<lambda>c. c \<noteq> CHR ''/'') (rev p))"

text \<open>\<^verbatim>\<open>submit_solution\<close>; Python's \<^verbatim>\<open>None\<close> is \<open>JNull\<close>.\<close>

definition submit_solution :: "world \<Rightarrow> json \<Rightarrow> json \<Rightarrow> json \<Rightarrow> string \<Rightarrow> json action" where
  "submit_solution w leaderboard runner gpu filepath =
     bind (lift (read_text w filepath)) (\<lambda>solution_content.
     let filename = basename filepath in
     with_client
       (bind (client_request w
                (POST (BASE_URL @ ''/'' @ py_str w leaderboard @ ''/'' @ py_str w runner
                         @ ''/'' @ py_str w gpu)
                   [(''file'', filename, solution_content)] 600)) (\<lambda>response.
          if status_code response \<noteq> 200
          then bind (console_print ''[red]Failed to submit solution[/red]'') (\<lambda>_. ret JNull)
          else lift (body_json response))))"

text \<open>\<^verbatim>\<open>for idx, x in enumerate(xs, start): console.print(f"{idx}. {x}")\<close>.\<close>

fun print_menu :: "world \<Rightarrow> nat \<Rightarrow> json list \<Rightarrow> unit action" where
  "print_menu w idx [] = ret ()"
| "print_menu w idx (x # xs) =
     bind (console_print (str_int (int idx) @ ''. '' @ py_str w x))
       (\<lambda>_. print_menu w (Suc idx) xs)"

text \<open>\<^verbatim>\<open>[x["name"] for x in leaderboards]\<close>.\<close>

fun names_of :: "json list \<Rightarrow> exn + json list" where
  "names_of [] = Inr []"
| "names_of (x # xs) =
     (case getitem_name x of
        Inl e \<Rightarrow> Inl e
      | Inr v \<Rightarrow> (case names_of xs of Inl e \<Rightarrow> Inl e | Inr vs \<Rightarrow> Inr (v # vs)))"

definition leaderboard_names :: "json \<Rightarrow> exn + json list" where
  "leaderboard_names leaderboards =
     (case py_iter leaderboards of Inl e \<Rightarrow> Inl e | Inr xs \<Rightarrow> names_of xs)"

definition runners :: "json list" where
  "runners = [JStr ''modal'', JStr ''github'']"

text \<open>
  The body of the \<^verbatim>\<open>try\<close> in \<^verbatim>\<open>_submit\<close>, in two parts. The first runs from the check of
  the path to the lower-casing of the three selections.
\<close>

definition select_target :: "world \<Rightarrow> string \<Rightarrow> (json \<times> json \<times> json) action" where
  "select_target w filepath =
     bind (if \<not> path_exists w filepath
           then bind (console_print (''[red]Error: File '' @ sq # filepath @ [sq]
                                       @ '' not found[/red]''))
                  (\<lambda>_. sys_exit 1)
           else ret ()) (\<lambda>_.
     bind (with_progress ''Fetching available leaderboards...''
             (bind (fetch_leaderboards w) (\<lambda>leaderboards.
                lift (leaderboard_names leaderboards)))) (\<lambda>leaderboard_names.
     bind (console_print ''\<newline>[bold blue]Available Leaderboards:[/bold blue]'') (\<lambda>_.
     bind (print_menu w 1 leaderboard_names) (\<lambda>_.
     bind (IntPrompt_ask w ''\<newline>Select leaderboard number''
             (choices (length leaderboard_names))) (\<lambda>leaderboard_idx.
     bind (lift (list_getitem leaderboard_names (leaderboard_idx - 1) ''list''))
       (\<lambda>selected_leaderboard.
     bind (console_print ''\<newline>[bold blue]Available Runners:[/bold blue]'') (\<lambda>_.
     bind (print_menu w 1 runners) (\<lambda>_.
     bind (IntPrompt_ask w ''\<newline>Select runner number'' [''1'', ''2'']) (\<lambda>runner_idx.
     bind (lift (list_getitem runners (runner_idx - 1) ''list'')) (\<lambda>selected_runner.
     bind (with_progress ''Fetching available GPUs...''
             (fetch_available_gpus w selected_leaderboard selected_runner)) (\<lambda>gpus.
     bind (console_print ''\<newline>[bold blue]Available GPUs:[/bold blue]'') (\<lambda>_.
     bind (lift (py_iter gpus)) (\<lambda>gpu_items.
     bind (print_menu w 1 gpu_items) (\<lambda>_.
     bind (lift (py_len gpus)) (\<lambda>n.
     bind (IntPrompt_ask w ''\<newline>Select GPU number'' (choices n)) (\<lambda>gpu_idx.
     bind (lift (py_getitem gpus (gpu_idx - 1))) (\<lambda>selected_gpu.
     bind (lift (py_lower w selected_leaderboard)) (\<lambda>selected_leaderboard.
     bind (lift (py_lower w selected_runner)) (\<lambda>selected_runner.
     bind (lift (py_lower w selected_gpu)) (\<lambda>selected_gpu.
     ret (selected_leaderboard, selected_runner, selected_gpu)))))))))))))))))))))"

text \<open>The second part submits and reports.\<close>

definition submit_and_report :: "world \<Rightarrow> string \<Rightarrow> json \<times> json \<times> json \<Rightarrow> unit action" where
  "submit_and_report w filepath target =
     (case target of (selected_leaderboard, selected_runner, selected_gpu) \<Rightarrow>
        bind (with_progress ''Submitting solution...''
                (submit_solution w selected_leaderboard selected_runner selected_gpu
                   filepath)) (\<lambda>result.
        if result = JNull
        then console_print ''[red]Failed to submit solution[/red]''
        else bind (console_print ''\<newline>[bold blue]Result:[/bold blue]'') (\<lambda>_.
             bind (console_print (json_dumps w result)) (\<lambda>_.
             console_print ''[green]Solution submitted successfully![/green]''))))"

definition try_block :: "world \<Rightarrow> string \<Rightarrow> unit action" where
  "try_block w filepath = bind (select_target w filepath) (submit_and_report w filepath)"

text \<open>\<^verbatim>\<open>_submit\<close>: the \<^verbatim>\<open>try\<close> with its one handler, \<^verbatim>\<open>except Exception as e\<close>.\<close>

definition submit_async :: "world \<Rightarrow> string \<Rightarrow> unit action" where
  "submit_async w filepath s =
     (case try_block w filepath s of
        (Raise e, s') \<Rightarrow>
          bind (console_print (''\<newline>[red]Error: '' @ exn_message e @ ''[/red]''))
            (\<lambda>_. sys_exit 1) s'
      | r \<Rightarrow> r)"

text \<open>
  The command \<^verbatim>\<open>submit\<close> as a process: what it did and its exit status, given the
  lines the user types. An exception that nothing catches would end the process with
  status 1.
\<close>

definition submit :: "world \<Rightarrow> string \<Rightarrow> string list \<Rightarrow> event list \<times> int" where
  "submit w filepath input =
     (case submit_async w filepath \<lparr>trace = [], stdin = input\<rparr> of
        (Ok u, s) \<Rightarrow> (trace s, 0)
      | (SysExit c, s) \<Rightarrow> (trace s, c)
      | (Raise e, s) \<Rightarrow> (trace s, 1))"

section \<open>Observations on a run\<close>

text \<open>The HTTP requests of a run, in the order they were issued.\<close>

fun requests :: "event list \<Rightarrow> request list" where
  "requests [] = []"
| "requests (Http rq # evs) = rq # requests evs"
| "requests (ev # evs) = requests evs"

text \<open>The lines of a numbered menu, as \<open>print_menu\<close> prints them.\<close>

fun menu_lines :: "world \<Rightarrow> nat \<Rightarrow> json list \<Rightarrow> string list" where
  "menu_lines w idx [] = []"
| "menu_lines w idx (x # xs) =
     (str_int (int idx) @ ''. '' @ py_str w x) # menu_lines w (Suc idx) xs"

section \<open>Steps that come before the submission\<close>

text \<open>
  A step is \<open>fetch_only\<close> when it only adds events to the trace, none of them a
  \<^verbatim>\<open>POST\<close>, and when it can end the process only with status 1.
\<close>


fun is_post :: "event \<Rightarrow> bool" where
  "is_post (Http (POST url files t)) = True"
| "is_post ev = False"

definition fetch_only :: "'a action \<Rightarrow> bool" where
  "fetch_only a \<longleftrightarrow>
     (\<forall>s r s'. a s = (r, s') \<longrightarrow>
        (\<exists>evs. trace s' = trace s @ evs \<and> list_all (\<lambda>ev. \<not> is_post ev) evs)
        \<and> (\<forall>c. r = SysExit c \<longrightarrow> c = 1))"

section \<open>A sample world\<close>

text \<open>
  The scenario of the specification: two leaderboards, two GPUs for \<^verbatim>\<open>Conv2D\<close> on
  \<^verbatim>\<open>modal\<close>, and a solution file whose one line ends in \<^verbatim>\<open>\r\n\<close>.
\<close>

definition ok_response :: "json \<Rightarrow> response" where
  "ok_response j = \<lparr>status_code = 200, body_json = Inr j\<rparr>"

definition not_found :: response where
  "not_found = \<lparr>status_code = 404, body_json = Inl (Exn ''JSONDecodeError''
     ''Expecting value: line 1 column 1 (char 0)'')\<rparr>"

definition sample_server :: "request \<Rightarrow> exn + response" where
  "sample_server rq =
     (case rq of
        GET url \<Rightarrow>
          if url = ''http://localhost:8000/leaderboards''
          then Inr (ok_response (JArr [JObj [(''name'', JStr ''MatMul'')],
                                       JObj [(''name'', JStr ''Conv2D'')]]))
          else if url = ''http://localhost:8000/Conv2D/modal/gpus''
          then Inr (ok_response (JArr [JStr ''A100'', JStr ''H100'']))
          else Inr not_found
      | POST url files t \<Rightarrow>
          if url = ''http://localhost:8000/conv2d/modal/h100''
          then Inr (ok_response (JObj [(''score'', JInt 7)]))
          else Inr not_found)"

definition sample_bytes :: string where
  "sample_bytes = ''x = 1'' @ [CHR 0x0D, CHR 0x0A]"

definition sample_world :: world where
  "sample_world =
     \<lparr>path_exists = (\<lambda>p. p = ''work/solution.py''),
      read_bytes = (\<lambda>p. if p = ''work/solution.py'' then Inr sample_bytes
                         else Inl (Exn ''FileNotFoundError'' ''No such file or directory'')),
      decode = Inr,
      server = sample_server,
      container_repr = (\<lambda>v. ''[...]''),
      json_dumps = (\<lambda>v. ''{...}''),
      unicode_lower = (\<lambda>s. s),
      unicode_strip = (\<lambda>s. s),
      unicode_int = (\<lambda>s. None),
      float_repr = (\<lambda>s. s)\<rparr>"


text \<open>
  The same world with the file and the answer to the submission left open, and the part of
  the trace that the three selections \<^verbatim>\<open>2\<close>, \<^verbatim>\<open>1\<close>, \<^verbatim>\<open>2\<close> produce in it.
\<close>

definition sample_world_with :: "exn + string \<Rightarrow> exn + response \<Rightarrow> world" where
  "sample_world_with file post =
     sample_world\<lparr>read_bytes := (\<lambda>p. file),
       server := (\<lambda>rq. case rq of GET url \<Rightarrow> sample_server rq | POST url files t \<Rightarrow> post)\<rparr>"

definition sample_selection_trace :: "event list" where
  "sample_selection_trace =
     [SpinnerStart ''Fetching available leaderboards...'', ClientOpen,
      Http (GET ''http://localhost:8000/leaderboards''), ClientClose, SpinnerStop,
      Print ''\<newline>[bold blue]Available Leaderboards:[/bold blue]'',
      Print ''1. MatMul'', Print ''2. Conv2D'',
      Ask ''\<newline>Select leaderboard number'' [''1'', ''2''],
      Print ''\<newline>[bold blue]Available Runners:[/bold blue]'',
      Print ''1. modal'', Print ''2. github'',
      Ask ''\<newline>Select runner number'' [''1'', ''2''],
      SpinnerStart ''Fetching available GPUs...'', ClientOpen,
      Http (GET ''http://localhost:8000/Conv2D/modal/gpus''), ClientClose, SpinnerStop,
      Print ''\<newline>[bold blue]Available GPUs:[/bold blue]'',
      Print ''1. A100'', Print ''2. H100'',
      Ask ''\<newline>Select GPU number'' [''1'', ''2'']]"

section \<open>Numerals and the prompt\<close>


lemma digit_val_digit_char: "d < 10 \<Longrightarrow> digit_val (digit_char d) = Some d"
proof -
  assume "d < 10"
  then have "d \<in> {0, 1, 2, 3, 4, 5, 6, 7, 8, 9}" by auto
  then show ?thesis by (auto simp: digit_val_def digit_char_def)
qed

lemma is_digit_digit_char: "d < 10 \<Longrightarrow> is_digit (digit_char d)"
  by (simp add: is_digit_def digit_val_digit_char)

lemma is_digit_cases: "is_digit c \<Longrightarrow> c \<in> set ''0123456789''"
  by (auto simp: is_digit_def digit_val_def split: if_splits)

lemma digit_not_space: "is_digit c \<Longrightarrow> \<not> is_space c"
  by (auto dest!: is_digit_cases simp: is_space_def)

lemma digit_not_sign: "is_digit c \<Longrightarrow> c \<noteq> CHR ''+'' \<and> c \<noteq> CHR ''-'' \<and> c \<noteq> CHR ''_''"
  by (auto dest!: is_digit_cases)

lemma str_nat_digits: "list_all is_digit (str_nat n)"
  by (induction n rule: str_nat.induct) (subst str_nat.simps, simp add: is_digit_digit_char)

lemma str_nat_nonempty: "str_nat n \<noteq> []"
  by (subst str_nat.simps) simp

lemma foldl_accum_str_nat: "foldl accum 0 (str_nat n) = n"
proof (induction n rule: str_nat.induct)
  case (1 n)
  show ?case
  proof (cases "n < 10")
    case True
    then show ?thesis by (subst str_nat.simps) (simp add: accum_def digit_val_digit_char)
  next
    case False
    with 1 have "foldl accum 0 (str_nat (n div 10)) = n div 10" by simp
    with False show ?thesis
      by (subst str_nat.simps) (simp add: accum_def digit_val_digit_char)
  qed
qed

lemma underscores_ok_digits: "list_all is_digit s \<Longrightarrow> underscores_ok s"
  by (induction s rule: underscores_ok.induct) (auto dest: digit_not_sign)

lemma py_nat_str_nat: "py_nat (str_nat n) = Some n"
proof -
  have d: "list_all is_digit (str_nat n)" by (rule str_nat_digits)
  have ne: "str_nat n \<noteq> []" by (rule str_nat_nonempty)
  from d ne have "is_digit (hd (str_nat n))" "is_digit (last (str_nat n))"
    by (simp_all add: list_all_iff)
  moreover from d have "list_all (\<lambda>c. is_digit c \<or> c = CHR ''_'') (str_nat n)"
    by (simp add: list_all_iff)
  ultimately show ?thesis
    using ne d by (simp add: py_nat_def underscores_ok_digits foldl_accum_str_nat)
qed

lemma dropWhile_hd: "s \<noteq> [] \<Longrightarrow> \<not> P (hd s) \<Longrightarrow> dropWhile P s = s"
  by (cases s) auto

lemma ascii_strip_id:
  assumes "s \<noteq> []" "\<not> is_space (hd s)" "\<not> is_space (last s)"
  shows "ascii_strip s = s"
proof -
  have "dropWhile is_space s = s" using assms by (simp add: dropWhile_hd)
  moreover have "dropWhile is_space (rev s) = rev s"
    using assms by (intro dropWhile_hd) (simp_all add: hd_rev)
  ultimately show ?thesis by (simp add: ascii_strip_def)
qed

lemma ascii_int_str_int: "ascii_int (str_int i) = Some i"
proof -
  let ?n = "str_nat (nat \<bar>i\<bar>)"
  have d: "list_all is_digit ?n" by (rule str_nat_digits)
  have ne: "?n \<noteq> []" by (rule str_nat_nonempty)
  from d ne have hd: "is_digit (hd ?n)" and lst: "is_digit (last ?n)"
    by (simp_all add: list_all_iff)
  show ?thesis
  proof (cases "i < 0")
    case True
    have "\<not> is_space (CHR ''-'')" by (simp add: is_space_def)
    moreover have "\<not> is_space (last (CHR ''-'' # ?n))"
      using ne lst by (simp add: digit_not_space)
    ultimately have "ascii_strip (CHR ''-'' # ?n) = CHR ''-'' # ?n"
      by (intro ascii_strip_id) simp_all
    with True show ?thesis
      by (simp add: ascii_int_def str_int_def py_nat_str_nat)
  next
    case False
    have s: "ascii_strip ?n = ?n"
      using ne hd lst by (intro ascii_strip_id) (simp_all add: digit_not_space)
    obtain c r where cr: "?n = c # r" using ne by (cases ?n) auto
    with hd have "c \<noteq> CHR ''+''" "c \<noteq> CHR ''-''" by (auto dest: digit_not_sign)
    with False s cr show ?thesis
      using py_nat_str_nat [of "nat \<bar>i\<bar>"]
      by (simp add: ascii_int_def str_int_def)
  qed
qed

lemma str_int_inj: "str_int a = str_int b \<Longrightarrow> a = b"
  by (metis ascii_int_str_int option.inject)

lemma digit_ascii: "is_digit c \<Longrightarrow> \<not> digit7 c"
  by (auto dest!: is_digit_cases)

lemma is_ascii_str_int: "is_ascii (str_int i)"
  using str_nat_digits [of "nat \<bar>i\<bar>"]
  by (auto simp: is_ascii_def str_int_def list_all_iff dest: digit_ascii)

lemma py_int_str_int: "py_int w (str_int i) = Some i"
  by (simp add: py_int_def is_ascii_str_int ascii_int_str_int)

lemma in_choices: "s \<in> set (choices n) \<longleftrightarrow> (\<exists>i. 1 \<le> i \<and> i \<le> int n \<and> s = str_int i)"
proof
  assume "s \<in> set (choices n)"
  then obtain m where "1 \<le> m" "m \<le> n" "s = str_int (int m)"
    by (auto simp: choices_def)
  then show "\<exists>i. 1 \<le> i \<and> i \<le> int n \<and> s = str_int i"
    by (intro exI [of _ "int m"]) simp
next
  assume "\<exists>i. 1 \<le> i \<and> i \<le> int n \<and> s = str_int i"
  then obtain i where i: "1 \<le> i" "i \<le> int n" "s = str_int i" by blast
  then have "nat i \<in> set [1..<Suc n]" by auto
  moreover from i have "s = str_int (int (nat i))" by simp
  ultimately show "s \<in> set (choices n)"
    unfolding choices_def set_map by (rule rev_image_eqI)
qed

lemma choices_2: "choices 2 = [''1'', ''2'']"
  by (simp add: choices_def str_int_def str_nat.simps digit_char_def upt_rec)

section \<open>Running the steps\<close>


lemma bind_ret [simp]: "bind (ret x) f = f x"
  by (rule ext) (simp add: bind_def ret_def)

lemma bind_py_raise [simp]: "bind (py_raise e) f = py_raise e"
  by (rule ext) (simp add: bind_def py_raise_def)

lemma bind_sys_exit [simp]: "bind (sys_exit c) f = sys_exit c"
  by (rule ext) (simp add: bind_def sys_exit_def)

lemma bind_assoc: "bind (bind m f) g = bind m (\<lambda>x. bind (f x) g)"
  by (rule ext) (simp add: bind_def split: prod.splits result.splits)

lemma lift_Inr [simp]: "lift (Inr x) = ret x"
  by (simp add: lift_def)

lemma lift_Inl [simp]: "lift (Inl e) = py_raise e"
  by (simp add: lift_def)

lemma bind_emit [simp]: "bind (emit ev) f s = f () (s\<lparr>trace := trace s @ [ev]\<rparr>)"
  by (simp add: bind_def emit_def)

lemma bind_console_print [simp]:
  "bind (console_print text) f s = f () (s\<lparr>trace := trace s @ [Print text]\<rparr>)"
  by (simp add: console_print_def)

lemma console_print_apply [simp]:
  "console_print text s = (Ok (), s\<lparr>trace := trace s @ [Print text]\<rparr>)"
  by (simp add: console_print_def emit_def)

lemma py_raise_apply [simp]: "py_raise e s = (Raise e, s)"
  by (simp add: py_raise_def)

lemma sys_exit_apply [simp]: "sys_exit c s = (SysExit c, s)"
  by (simp add: sys_exit_def)

lemma ret_apply [simp]: "ret x s = (Ok x, s)"
  by (simp add: ret_def)

lemma bind_Ok: "m s = (Ok x, s') \<Longrightarrow> bind m f s = f x s'"
  by (simp add: bind_def)

lemma bind_Raise: "m s = (Raise e, s') \<Longrightarrow> bind m f s = (Raise e, s')"
  by (simp add: bind_def)

lemma bind_SysExit: "m s = (SysExit c, s') \<Longrightarrow> bind m f s = (SysExit c, s')"
  by (simp add: bind_def)

lemma select_target_missing:
  assumes "\<not> path_exists w filepath"
  shows "select_target w filepath s =
    (SysExit 1, s\<lparr>trace := trace s @
       [Print (''[red]Error: File '' @ sq # filepath @ [sq] @ '' not found[/red]'')]\<rparr>)"
  using assms by (simp add: select_target_def bind_assoc)




lemma get_apply:
  "with_client (bind (client_request w rq) f) s =
     (case server w rq of
        Inl e \<Rightarrow> (Raise e, s\<lparr>trace := trace s @ [ClientOpen, Http rq, ClientClose]\<rparr>)
      | Inr r \<Rightarrow>
          (case f r (s\<lparr>trace := trace s @ [ClientOpen, Http rq]\<rparr>) of
             (x, s') \<Rightarrow> (x, s'\<lparr>trace := trace s' @ [ClientClose]\<rparr>)))"
  by (simp add: with_client_def client_request_def bind_assoc split: sum.splits)

lemma fetch_leaderboards_apply:
  "fetch_leaderboards w s =
     (case server w (GET (BASE_URL @ ''/leaderboards'')) of
        Inl e \<Rightarrow> (Raise e, s\<lparr>trace := trace s @
          [ClientOpen, Http (GET (BASE_URL @ ''/leaderboards'')), ClientClose]\<rparr>)
      | Inr r \<Rightarrow>
          if status_code r \<noteq> 200
          then (SysExit 1, s\<lparr>trace := trace s @
            [ClientOpen, Http (GET (BASE_URL @ ''/leaderboards'')),
             Print ''[red]Failed to fetch leaderboards[/red]'', ClientClose]\<rparr>)
          else (case body_json r of
                  Inl e \<Rightarrow> (Raise e, s\<lparr>trace := trace s @
                    [ClientOpen, Http (GET (BASE_URL @ ''/leaderboards'')), ClientClose]\<rparr>)
                | Inr j \<Rightarrow> (Ok j, s\<lparr>trace := trace s @
                    [ClientOpen, Http (GET (BASE_URL @ ''/leaderboards'')), ClientClose]\<rparr>)))"
  by (simp add: fetch_leaderboards_def get_apply split: sum.splits)

lemma select_target_fetch_failed:
  assumes "path_exists w filepath"
    and "server w (GET (BASE_URL @ ''/leaderboards'')) = Inr r"
    and "status_code r \<noteq> 200"
  shows "select_target w filepath s =
    (SysExit 1, s\<lparr>trace := trace s @
       [SpinnerStart ''Fetching available leaderboards...'', ClientOpen,
        Http (GET (BASE_URL @ ''/leaderboards'')),
        Print ''[red]Failed to fetch leaderboards[/red]'', ClientClose, SpinnerStop]\<rparr>)"
  using assms
  by (simp add: select_target_def with_progress_def bind_def fetch_leaderboards_apply)


section \<open>The prompt\<close>


lemma process_response_accept:
  assumes "1 \<le> i" "i \<le> int n" "py_strip w line = str_int i"
  shows "process_response w (choices n) line = Some i"
proof -
  have "str_int i \<in> set (choices n)" using assms by (auto simp: in_choices)
  with assms(3) show ?thesis by (simp add: process_response_def py_int_str_int)
qed

lemma process_response_Some:
  assumes "process_response w (choices n) line = Some k"
  shows "1 \<le> k \<and> k \<le> int n \<and> py_strip w line = str_int k"
proof -
  from assms have m: "py_strip w line \<in> set (choices n)" and p: "py_int w (py_strip w line) = Some k"
    by (auto simp: process_response_def Let_def split: option.splits if_splits)
  from m obtain i where i: "1 \<le> i" "i \<le> int n" "py_strip w line = str_int i"
    by (auto simp: in_choices)
  with p have "k = i" by (simp add: py_int_str_int)
  with i show ?thesis by simp
qed

lemma process_response_reject:
  assumes "\<forall>i. 1 \<le> i \<and> i \<le> int n \<longrightarrow> py_strip w line \<noteq> str_int i"
  shows "process_response w (choices n) line = None"
proof -
  from assms have "py_strip w line \<notin> set (choices n)" by (auto simp: in_choices)
  then show ?thesis by (simp add: process_response_def Let_def split: option.splits)
qed

lemma prompt_loop_range:
  "prompt_loop w (choices n) input = (a, Some (k, rest)) \<Longrightarrow> 1 \<le> k \<and> k \<le> int n"
proof (induction input arbitrary: a)
  case Nil
  then show ?case by simp
next
  case (Cons line input)
  show ?case
  proof (cases "process_response w (choices n) line")
    case None
    with Cons.prems obtain a' where "prompt_loop w (choices n) input = (a', Some (k, rest))"
      by (auto split: prod.splits)
    then show ?thesis by (rule Cons.IH)
  next
    case (Some k')
    with Cons.prems have "k' = k" by simp
    with Some show ?thesis by (auto dest: process_response_Some)
  qed
qed

lemma prompt_loop_skip:
  assumes "\<forall>l \<in> set bad. \<forall>m. 1 \<le> m \<and> m \<le> int n \<longrightarrow> py_strip w l \<noteq> str_int m"
    and "1 \<le> i" "i \<le> int n" "py_strip w line = str_int i"
  shows "prompt_loop w (choices n) (bad @ line # rest) = (Suc (length bad), Some (i, rest))"
  using assms
  by (induction bad) (simp_all add: process_response_accept process_response_reject)

lemma list_getitem_in_range:
  "1 \<le> k \<Longrightarrow> k \<le> int (length xs) \<Longrightarrow> list_getitem xs (k - 1) what = Inr (xs ! nat (k - 1))"
  by (simp add: list_getitem_def)

lemma IntPrompt_ask_Ok:
  assumes "IntPrompt_ask w q (choices n) s = (Ok k, s')"
  shows "1 \<le> k \<and> k \<le> int n"
proof -
  obtain a r where pl: "prompt_loop w (choices n) (stdin s) = (a, r)" by (cases "prompt_loop w (choices n) (stdin s)")
  with assms obtain rest where "r = Some (k, rest)"
    by (cases r) (auto simp: IntPrompt_ask_def)
  with pl show ?thesis by (auto dest: prompt_loop_range)
qed


section \<open>The flow up to the selection\<close>


lemma print_menu_apply:
  "print_menu w idx xs s = (Ok (), s\<lparr>trace := trace s @ map Print (menu_lines w idx xs)\<rparr>)"
  by (induction xs arbitrary: idx s) simp_all

lemma fetch_available_gpus_apply:
  "fetch_available_gpus w leaderboard runner s =
     (let url = BASE_URL @ ''/'' @ py_str w leaderboard @ ''/'' @ py_str w runner @ ''/gpus'' in
      case server w (GET url) of
        Inl e \<Rightarrow> (Raise e, s\<lparr>trace := trace s @ [ClientOpen, Http (GET url), ClientClose]\<rparr>)
      | Inr r \<Rightarrow>
          if status_code r \<noteq> 200
          then (SysExit 1, s\<lparr>trace := trace s @
            [ClientOpen, Http (GET url), Print ''[red]Failed to fetch GPUs[/red]'',
             ClientClose]\<rparr>)
          else (case body_json r of
                  Inl e \<Rightarrow> (Raise e, s\<lparr>trace := trace s @
                    [ClientOpen, Http (GET url), ClientClose]\<rparr>)
                | Inr j \<Rightarrow> (Ok j, s\<lparr>trace := trace s @
                    [ClientOpen, Http (GET url), ClientClose]\<rparr>)))"
  by (simp add: fetch_available_gpus_def get_apply Let_def split: sum.splits)

lemma select_target_selected:
  assumes ex: "path_exists w filepath"
    and lb: "server w (GET (BASE_URL @ ''/leaderboards'')) = Inr r1" "status_code r1 = 200"
      "body_json r1 = Inr lbs" "leaderboard_names lbs = Inr names"
    and p1: "prompt_loop w (choices (length names)) (stdin s) = (a1, Some (i, in1))"
    and p2: "prompt_loop w [''1'', ''2''] in1 = (a2, Some (j, in2))"
    and gp: "server w (GET (BASE_URL @ ''/'' @ py_str w (names ! nat (i - 1)) @ ''/''
                @ py_str w (runners ! nat (j - 1)) @ ''/gpus'')) = Inr r2"
      "status_code r2 = 200" "body_json r2 = Inr gpus"
    and it: "py_iter gpus = Inr items" "py_len gpus = Inr n"
    and p3: "prompt_loop w (choices n) in2 = (a3, Some (k, in3))"
    and gi: "py_getitem gpus (k - 1) = Inr g"
  shows "select_target w filepath s =
    bind (lift (py_lower w (names ! nat (i - 1)))) (\<lambda>selected_leaderboard.
    bind (lift (py_lower w (runners ! nat (j - 1)))) (\<lambda>selected_runner.
    bind (lift (py_lower w g)) (\<lambda>selected_gpu.
    ret (selected_leaderboard, selected_runner, selected_gpu))))
    (s\<lparr>trace := trace s @
       [SpinnerStart ''Fetching available leaderboards...'', ClientOpen,
        Http (GET (BASE_URL @ ''/leaderboards'')), ClientClose, SpinnerStop,
        Print ''\<newline>[bold blue]Available Leaderboards:[/bold blue]'']
       @ map Print (menu_lines w 1 names)
       @ replicate a1 (Ask ''\<newline>Select leaderboard number'' (choices (length names)))
       @ [Print ''\<newline>[bold blue]Available Runners:[/bold blue]'']
       @ map Print (menu_lines w 1 runners)
       @ replicate a2 (Ask ''\<newline>Select runner number'' [''1'', ''2''])
       @ [SpinnerStart ''Fetching available GPUs...'', ClientOpen,
          Http (GET (BASE_URL @ ''/'' @ py_str w (names ! nat (i - 1)) @ ''/''
                @ py_str w (runners ! nat (j - 1)) @ ''/gpus'')), ClientClose, SpinnerStop,
          Print ''\<newline>[bold blue]Available GPUs:[/bold blue]'']
       @ map Print (menu_lines w 1 items)
       @ replicate a3 (Ask ''\<newline>Select GPU number'' (choices n)),
      stdin := in3\<rparr>)"
proof -
  from p1 have i: "1 \<le> i \<and> i \<le> int (length names)" by (rule prompt_loop_range)
  from p2 have "prompt_loop w (choices 2) in1 = (a2, Some (j, in2))" by (simp add: choices_2)
  then have j: "1 \<le> j \<and> j \<le> int (length runners)"
    by (auto dest: prompt_loop_range simp: runners_def)
  from i have gi1: "list_getitem names (i - 1) ''list'' = Inr (names ! nat (i - 1))"
    by (simp add: list_getitem_in_range)
  from j have gi2: "list_getitem runners (j - 1) ''list'' = Inr (runners ! nat (j - 1))"
    by (simp add: list_getitem_in_range)
  show ?thesis
    using ex lb p1 p2 gp it p3 gi gi1 gi2
    by (simp add: select_target_def with_progress_def bind_def fetch_leaderboards_apply
        fetch_available_gpus_apply Let_def print_menu_apply IntPrompt_ask_def)
qed

section \<open>The submission\<close>


lemma requests_append: "requests (xs @ ys) = requests xs @ requests ys"
  by (induction xs rule: requests.induct) simp_all

lemma requests_prints: "requests (map Print ls) = []"
  by (induction ls) simp_all

lemma requests_asks: "requests (replicate n (Ask q cs)) = []"
  by (induction n) simp_all

lemma submit_solution_apply:
  "submit_solution w leaderboard runner gpu filepath s =
     (case read_text w filepath of
        Inl e \<Rightarrow> (Raise e, s)
      | Inr content \<Rightarrow>
         (let rq = POST (BASE_URL @ ''/'' @ py_str w leaderboard @ ''/'' @ py_str w runner
                      @ ''/'' @ py_str w gpu) [(''file'', basename filepath, content)] 600 in
          case server w rq of
            Inl e \<Rightarrow> (Raise e, s\<lparr>trace := trace s @ [ClientOpen, Http rq, ClientClose]\<rparr>)
          | Inr r \<Rightarrow>
              if status_code r \<noteq> 200
              then (Ok JNull, s\<lparr>trace := trace s @
                [ClientOpen, Http rq, Print ''[red]Failed to submit solution[/red]'',
                 ClientClose]\<rparr>)
              else (case body_json r of
                      Inl e \<Rightarrow> (Raise e, s\<lparr>trace := trace s @
                        [ClientOpen, Http rq, ClientClose]\<rparr>)
                    | Inr j \<Rightarrow> (Ok j, s\<lparr>trace := trace s @
                        [ClientOpen, Http rq, ClientClose]\<rparr>))))"
  by (simp add: submit_solution_def get_apply Let_def split: sum.splits)

lemma submit_and_report_apply:
  "submit_and_report w filepath (lb, rn, g) s =
     (case read_text w filepath of
        Inl e \<Rightarrow> (Raise e, s\<lparr>trace := trace s @
          [SpinnerStart ''Submitting solution...'', SpinnerStop]\<rparr>)
      | Inr content \<Rightarrow>
         (let rq = POST (BASE_URL @ ''/'' @ py_str w lb @ ''/'' @ py_str w rn
                      @ ''/'' @ py_str w g) [(''file'', basename filepath, content)] 600 in
          case server w rq of
            Inl e \<Rightarrow> (Raise e, s\<lparr>trace := trace s @
              [SpinnerStart ''Submitting solution...'', ClientOpen, Http rq, ClientClose,
               SpinnerStop]\<rparr>)
          | Inr r \<Rightarrow>
              if status_code r \<noteq> 200
              then (Ok (), s\<lparr>trace := trace s @
                [SpinnerStart ''Submitting solution...'', ClientOpen, Http rq,
                 Print ''[red]Failed to submit solution[/red]'', ClientClose, SpinnerStop,
                 Print ''[red]Failed to submit solution[/red]'']\<rparr>)
              else (case body_json r of
                      Inl e \<Rightarrow> (Raise e, s\<lparr>trace := trace s @
                        [SpinnerStart ''Submitting solution...'', ClientOpen, Http rq,
                         ClientClose, SpinnerStop]\<rparr>)
                    | Inr j \<Rightarrow>
                        if j = JNull
                        then (Ok (), s\<lparr>trace := trace s @
                          [SpinnerStart ''Submitting solution...'', ClientOpen, Http rq,
                           ClientClose, SpinnerStop,
                           Print ''[red]Failed to submit solution[/red]'']\<rparr>)
                        else (Ok (), s\<lparr>trace := trace s @
                          [SpinnerStart ''Submitting solution...'', ClientOpen, Http rq,
                           ClientClose, SpinnerStop,
                           Print ''\<newline>[bold blue]Result:[/bold blue]'',
                           Print (json_dumps w j),
                           Print ''[green]Solution submitted successfully![/green]'']\<rparr>))))"
  by (simp add: submit_and_report_def with_progress_def bind_def submit_solution_apply Let_def
      split: sum.splits)

lemma submit_and_report_posts:
  assumes "read_text w filepath = Inr content"
  shows "\<exists>r tail. submit_and_report w filepath (lb, rn, g) s =
      (r, s\<lparr>trace := trace s @
         [SpinnerStart ''Submitting solution...'', ClientOpen,
          Http (POST (BASE_URL @ ''/'' @ py_str w lb @ ''/'' @ py_str w rn @ ''/'' @ py_str w g)
                 [(''file'', basename filepath, content)] 600)] @ tail\<rparr>)
      \<and> requests tail = [] \<and> (\<forall>c. r \<noteq> SysExit c)"
proof -
  let ?rq = "POST (BASE_URL @ ''/'' @ py_str w lb @ ''/'' @ py_str w rn @ ''/'' @ py_str w g)
                 [(''file'', basename filepath, content)] 600"
  show ?thesis
  proof (cases "server w ?rq")
    case (Inl e)
    with assms show ?thesis
      by (intro exI [of _ "Raise e"] exI [of _ "[ClientClose, SpinnerStop]"])
        (simp add: submit_and_report_apply)
  next
    case (Inr r)
    show ?thesis
    proof (cases "status_code r = 200")
      case False
      with Inr assms show ?thesis
        by (intro exI [of _ "Ok ()"] exI [of _ "[Print ''[red]Failed to submit solution[/red]'',
              ClientClose, SpinnerStop, Print ''[red]Failed to submit solution[/red]'']"])
          (simp add: submit_and_report_apply)
    next
      case True
      show ?thesis
      proof (cases "body_json r")
        case (Inl e)
        with True Inr assms show ?thesis
          by (intro exI [of _ "Raise e"] exI [of _ "[ClientClose, SpinnerStop]"])
            (simp add: submit_and_report_apply)
      next
        case j: (Inr j)
        show ?thesis
        proof (cases "j = JNull")
          case True
          with j \<open>status_code r = 200\<close> Inr assms show ?thesis
            by (intro exI [of _ "Ok ()"] exI [of _ "[ClientClose, SpinnerStop,
                  Print ''[red]Failed to submit solution[/red]'']"])
              (simp add: submit_and_report_apply)
        next
          case False
          with j \<open>status_code r = 200\<close> Inr assms show ?thesis
            by (intro exI [of _ "Ok ()"] exI [of _ "[ClientClose, SpinnerStop,
                  Print ''\<newline>[bold blue]Result:[/bold blue]'', Print (json_dumps w j),
                  Print ''[green]Solution submitted successfully![/green]'']"])
              (simp add: submit_and_report_apply)
        qed
      qed
    qed
  qed
qed

lemma run_after_selection:
  assumes sel: "select_target w filepath \<lparr>trace = [], stdin = input\<rparr> = (Ok (lb, rn, g), s1)"
    and rd: "read_text w filepath = Inr content"
  shows "\<exists>tail. fst (submit w filepath input) =
      trace s1 @ [SpinnerStart ''Submitting solution...'', ClientOpen,
          Http (POST (BASE_URL @ ''/'' @ py_str w lb @ ''/'' @ py_str w rn @ ''/'' @ py_str w g)
                 [(''file'', basename filepath, content)] 600)] @ tail
      \<and> requests tail = []"
proof -
  from submit_and_report_posts [OF rd, of lb rn g s1]
  obtain r tail where sr: "submit_and_report w filepath (lb, rn, g) s1 =
      (r, s1\<lparr>trace := trace s1 @
         [SpinnerStart ''Submitting solution...'', ClientOpen,
          Http (POST (BASE_URL @ ''/'' @ py_str w lb @ ''/'' @ py_str w rn @ ''/'' @ py_str w g)
                 [(''file'', basename filepath, content)] 600)] @ tail\<rparr>)"
    and rt: "requests tail = []" and nx: "\<forall>c. r \<noteq> SysExit c"
    by blast
  from sel sr have tb: "try_block w filepath \<lparr>trace = [], stdin = input\<rparr> =
      (r, s1\<lparr>trace := trace s1 @
         [SpinnerStart ''Submitting solution...'', ClientOpen,
          Http (POST (BASE_URL @ ''/'' @ py_str w lb @ ''/'' @ py_str w rn @ ''/'' @ py_str w g)
                 [(''file'', basename filepath, content)] 600)] @ tail\<rparr>)"
    by (simp add: try_block_def bind_def)
  show ?thesis
  proof (cases r)
    case (Ok u)
    with tb rt show ?thesis by (simp add: submit_def submit_async_def)
  next
    case (Raise e)
    with tb rt show ?thesis
      by (intro exI [of _ "tail @ [Print (''\<newline>[red]Error: '' @ exn_message e @ ''[/red]'')]"])
        (simp add: submit_def submit_async_def requests_append)
  next
    case (SysExit c)
    with nx show ?thesis by simp
  qed
qed

section \<open>No submission before the selection is complete\<close>

lemma fetch_onlyD:
  "fetch_only a \<Longrightarrow> a s = (r, s') \<Longrightarrow>
     \<exists>evs. trace s' = trace s @ evs \<and> list_all (\<lambda>ev. \<not> is_post ev) evs"
  by (simp add: fetch_only_def)

lemma fetch_only_exitD: "fetch_only a \<Longrightarrow> a s = (SysExit c, s') \<Longrightarrow> c = 1"
  by (simp add: fetch_only_def)

lemma fetch_onlyI:
  assumes "\<And>s r s'. a s = (r, s') \<Longrightarrow>
      \<exists>evs. trace s' = trace s @ evs \<and> list_all (\<lambda>ev. \<not> is_post ev) evs"
    and "\<And>s c s'. a s = (SysExit c, s') \<Longrightarrow> c = 1"
  shows "fetch_only a"
  unfolding fetch_only_def using assms by blast

lemma fetch_only_ret: "fetch_only (ret x)"
  by (simp add: fetch_only_def)

lemma fetch_only_py_raise: "fetch_only (py_raise e)"
  by (simp add: fetch_only_def)

lemma fetch_only_sys_exit: "fetch_only (sys_exit 1)"
  by (simp add: fetch_only_def)

lemma fetch_only_lift: "fetch_only (lift r)"
  by (cases r) (simp_all add: fetch_only_def)

lemma fetch_only_console_print: "fetch_only (console_print text)"
  by (simp add: fetch_only_def)

lemma fetch_only_bind:
  assumes m: "fetch_only m" and f: "\<And>x. fetch_only (f x)"
  shows "fetch_only (bind m f)"
proof (rule fetch_onlyI)
  fix s r s'
  assume b: "bind m f s = (r, s')"
  obtain r1 s1 where ms: "m s = (r1, s1)" by (cases "m s")
  from fetch_onlyD [OF m ms] obtain evs1
    where e1: "trace s1 = trace s @ evs1" "list_all (\<lambda>ev. \<not> is_post ev) evs1" by blast
  show "\<exists>evs. trace s' = trace s @ evs \<and> list_all (\<lambda>ev. \<not> is_post ev) evs"
  proof (cases r1)
    case (Ok x)
    with b ms have fx: "f x s1 = (r, s')" by (simp add: bind_def)
    from fetch_onlyD [OF f fx] obtain evs2
      where "trace s' = trace s1 @ evs2" "list_all (\<lambda>ev. \<not> is_post ev) evs2" by blast
    with e1 have "trace s' = trace s @ (evs1 @ evs2)
        \<and> list_all (\<lambda>ev. \<not> is_post ev) (evs1 @ evs2)" by simp
    then show ?thesis by blast
  next
    case (Raise e)
    with b ms have "s' = s1" by (simp add: bind_def)
    with e1 show ?thesis by blast
  next
    case (SysExit c)
    with b ms have "s' = s1" by (simp add: bind_def)
    with e1 show ?thesis by blast
  qed
next
  fix s c s'
  assume b: "bind m f s = (SysExit c, s')"
  obtain r1 s1 where ms: "m s = (r1, s1)" by (cases "m s")
  show "c = 1"
  proof (cases r1)
    case (Ok x)
    with b ms have "f x s1 = (SysExit c, s')" by (simp add: bind_def)
    then show ?thesis by (rule fetch_only_exitD [OF f])
  next
    case (Raise e)
    with b ms show ?thesis by (simp add: bind_def)
  next
    case (SysExit c')
    with b ms have "m s = (SysExit c, s')" by (simp add: bind_def)
    then show ?thesis by (rule fetch_only_exitD [OF m])
  qed
qed

lemma fetch_only_if:
  "fetch_only a \<Longrightarrow> fetch_only b \<Longrightarrow> fetch_only (if c then a else b)"
  by simp

lemma fetch_only_bracket:
  assumes body: "fetch_only body"
    and "\<not> is_post ev_in" and "\<not> is_post ev_out"
    and w: "\<And>s. block s = (case body (s\<lparr>trace := trace s @ [ev_in]\<rparr>) of
        (r, s') \<Rightarrow> (r, s'\<lparr>trace := trace s' @ [ev_out]\<rparr>))"
  shows "fetch_only block"
proof (rule fetch_onlyI)
  fix s r s'
  assume b: "block s = (r, s')"
  obtain r1 s1 where m: "body (s\<lparr>trace := trace s @ [ev_in]\<rparr>) = (r1, s1)"
    by (cases "body (s\<lparr>trace := trace s @ [ev_in]\<rparr>)")
  from fetch_onlyD [OF body m] obtain evs1
    where e1: "trace s1 = (trace s @ [ev_in]) @ evs1" "list_all (\<lambda>ev. \<not> is_post ev) evs1"
    by auto
  from b m w have "s' = s1\<lparr>trace := trace s1 @ [ev_out]\<rparr>" by simp
  with e1 assms(2,3) have "trace s' = trace s @ (ev_in # evs1 @ [ev_out])
      \<and> list_all (\<lambda>ev. \<not> is_post ev) (ev_in # evs1 @ [ev_out])" by simp
  then show "\<exists>evs. trace s' = trace s @ evs \<and> list_all (\<lambda>ev. \<not> is_post ev) evs" by blast
next
  fix s c s'
  assume b: "block s = (SysExit c, s')"
  obtain r1 s1 where m: "body (s\<lparr>trace := trace s @ [ev_in]\<rparr>) = (r1, s1)"
    by (cases "body (s\<lparr>trace := trace s @ [ev_in]\<rparr>)")
  with b w have "r1 = SysExit c" by simp
  with m show "c = 1" by (auto dest: fetch_only_exitD [OF body])
qed

lemma fetch_only_with_progress: "fetch_only body \<Longrightarrow> fetch_only (with_progress d body)"
  by (rule fetch_only_bracket [where ev_in = "SpinnerStart d" and ev_out = SpinnerStop])
    (simp_all add: with_progress_def)

lemma fetch_only_with_client: "fetch_only body \<Longrightarrow> fetch_only (with_client body)"
  by (rule fetch_only_bracket [where ev_in = ClientOpen and ev_out = ClientClose])
    (simp_all add: with_client_def)

lemma fetch_only_get: "fetch_only (client_request w (GET url))"
  by (cases "server w (GET url)") (auto simp: fetch_only_def client_request_def)

lemma fetch_only_print_menu: "fetch_only (print_menu w idx xs)"
  by (auto simp: fetch_only_def print_menu_apply list_all_iff)

lemma fetch_only_IntPrompt_ask: "fetch_only (IntPrompt_ask w q cs)"
  by (auto simp: fetch_only_def IntPrompt_ask_def list_all_iff split: prod.splits option.splits)

lemmas fetch_only_intros =
  fetch_only_bind fetch_only_if fetch_only_with_progress fetch_only_with_client
  fetch_only_ret fetch_only_py_raise fetch_only_sys_exit fetch_only_lift
  fetch_only_console_print fetch_only_get fetch_only_print_menu fetch_only_IntPrompt_ask

lemma fetch_only_select_target: "fetch_only (select_target w filepath)"
  unfolding select_target_def fetch_leaderboards_def fetch_available_gpus_def
  by (intro fetch_only_intros)

lemma select_target_no_post:
  assumes "select_target w filepath \<lparr>trace = [], stdin = input\<rparr> = (r, s')"
  shows "list_all (\<lambda>ev. \<not> is_post ev) (trace s')" and "r = SysExit c \<Longrightarrow> c = 1"
  using assms fetch_onlyD [OF fetch_only_select_target assms]
    fetch_only_exitD [OF fetch_only_select_target]
  by auto

section \<open>The complete selection\<close>

lemma select_target_strings:
  assumes ex: "path_exists w filepath"
    and lb: "server w (GET (BASE_URL @ ''/leaderboards'')) = Inr r1" "status_code r1 = 200"
      "body_json r1 = Inr lbs" "leaderboard_names lbs = Inr names"
    and p1: "prompt_loop w (choices (length names)) input = (a1, Some (i, in1))"
    and p2: "prompt_loop w [''1'', ''2''] in1 = (a2, Some (j, in2))"
    and s1: "names ! nat (i - 1) = JStr leaderboard"
    and s2: "runners ! nat (j - 1) = JStr runner"
    and gp: "server w (GET (BASE_URL @ ''/'' @ leaderboard @ ''/'' @ runner @ ''/gpus'')) = Inr r2"
      "status_code r2 = 200" "body_json r2 = Inr (JArr gs)"
    and p3: "prompt_loop w (choices (length gs)) in2 = (a3, Some (k, in3))"
    and s3: "gs ! nat (k - 1) = JStr gpu"
  shows "select_target w filepath \<lparr>trace = [], stdin = input\<rparr> =
    (Ok (JStr (str_lower w leaderboard), JStr (str_lower w runner), JStr (str_lower w gpu)),
     \<lparr>trace =
       [SpinnerStart ''Fetching available leaderboards...'', ClientOpen,
        Http (GET (BASE_URL @ ''/leaderboards'')), ClientClose, SpinnerStop,
        Print ''\<newline>[bold blue]Available Leaderboards:[/bold blue]'']
       @ map Print (menu_lines w 1 names)
       @ replicate a1 (Ask ''\<newline>Select leaderboard number'' (choices (length names)))
       @ [Print ''\<newline>[bold blue]Available Runners:[/bold blue]'']
       @ map Print (menu_lines w 1 runners)
       @ replicate a2 (Ask ''\<newline>Select runner number'' [''1'', ''2''])
       @ [SpinnerStart ''Fetching available GPUs...'', ClientOpen,
          Http (GET (BASE_URL @ ''/'' @ leaderboard @ ''/'' @ runner @ ''/gpus'')),
          ClientClose, SpinnerStop,
          Print ''\<newline>[bold blue]Available GPUs:[/bold blue]'']
       @ map Print (menu_lines w 1 gs)
       @ replicate a3 (Ask ''\<newline>Select GPU number'' (choices (length gs))),
      stdin = in3\<rparr>)"
proof -
  from p3 have k: "1 \<le> k \<and> k \<le> int (length gs)" by (rule prompt_loop_range)
  then have gi: "py_getitem (JArr gs) (k - 1) = Inr (JStr gpu)"
    using s3 by (simp add: list_getitem_in_range)
  have "select_target w filepath \<lparr>trace = [], stdin = input\<rparr> =
    bind (lift (py_lower w (names ! nat (i - 1)))) (\<lambda>selected_leaderboard.
    bind (lift (py_lower w (runners ! nat (j - 1)))) (\<lambda>selected_runner.
    bind (lift (py_lower w (JStr gpu))) (\<lambda>selected_gpu.
    ret (selected_leaderboard, selected_runner, selected_gpu))))
    (\<lparr>trace = [], stdin = input\<rparr>\<lparr>trace := trace \<lparr>trace = [], stdin = input\<rparr> @
       [SpinnerStart ''Fetching available leaderboards...'', ClientOpen,
        Http (GET (BASE_URL @ ''/leaderboards'')), ClientClose, SpinnerStop,
        Print ''\<newline>[bold blue]Available Leaderboards:[/bold blue]'']
       @ map Print (menu_lines w 1 names)
       @ replicate a1 (Ask ''\<newline>Select leaderboard number'' (choices (length names)))
       @ [Print ''\<newline>[bold blue]Available Runners:[/bold blue]'']
       @ map Print (menu_lines w 1 runners)
       @ replicate a2 (Ask ''\<newline>Select runner number'' [''1'', ''2''])
       @ [SpinnerStart ''Fetching available GPUs...'', ClientOpen,
          Http (GET (BASE_URL @ ''/'' @ py_str w (names ! nat (i - 1)) @ ''/''
                @ py_str w (runners ! nat (j - 1)) @ ''/gpus'')), ClientClose, SpinnerStop,
          Print ''\<newline>[bold blue]Available GPUs:[/bold blue]'']
       @ map Print (menu_lines w 1 gs)
       @ replicate a3 (Ask ''\<newline>Select GPU number'' (choices (length gs))),
      stdin := in3\<rparr>)"
    using ex lb p1 p2 gp p3 gi
    by (intro select_target_selected [where ?r1.0 = r1 and ?r2.0 = r2 and lbs = lbs
          and gpus = "JArr gs"])
      (simp_all add: s1 s2 py_str_def)
  then show ?thesis by (simp add: s1 s2 py_str_def)
qed


section \<open>The sample run\<close>

lemma str_int_small: "str_int 1 = ''1''" "str_int 2 = ''2''" "str_int 3 = ''3''"
  by (simp_all add: str_int_def str_nat.simps digit_char_def)

lemma choices_Suc_Suc_0: "choices (Suc (Suc 0)) = [''1'', ''2'']"
  using choices_2 by (simp add: numeral_2_eq_2)

lemma process_response_sample:
  "process_response w [''1'', ''2''] ''1'' = Some 1"
  "process_response w [''1'', ''2''] ''2'' = Some 2"
  using process_response_accept [where i = 1 and n = 2 and line = "''1''" and w = w]
    process_response_accept [where i = 2 and n = 2 and line = "''2''" and w = w]
  by (simp_all add: choices_2 str_int_small py_strip_def is_ascii_def ascii_strip_def
      is_space_def)

lemma sample_selection:
  assumes "path_exists w ''work/solution.py''"
    and "\<And>url. server w (GET url) = sample_server (GET url)"
  shows "select_target w ''work/solution.py'' \<lparr>trace = [], stdin = [''2'', ''1'', ''2'']\<rparr> =
   (Ok (JStr ''conv2d'', JStr ''modal'', JStr ''h100''),
    \<lparr>trace = sample_selection_trace, stdin = []\<rparr>)"
  using assms
  by (simp add: select_target_def with_progress_def bind_def fetch_leaderboards_apply
      fetch_available_gpus_apply Let_def print_menu_apply IntPrompt_ask_def
      sample_server_def ok_response_def BASE_URL_def
      leaderboard_names_def choices_Suc_Suc_0 process_response_sample list_getitem_def
      runners_def py_str_def str_int_small str_lower_def is_ascii_def ascii_lower_def lower_char_def
      sample_selection_trace_def)

lemma sample_world_facts:
  "path_exists sample_world ''work/solution.py''"
  "server sample_world (GET url) = sample_server (GET url)"
  "path_exists (sample_world_with file post) ''work/solution.py''"
  "server (sample_world_with file post) (GET url) = sample_server (GET url)"
  "server (sample_world_with file post) (POST url files t) = post"
  "read_bytes (sample_world_with file post) p = file"
  "decode (sample_world_with file post) = Inr"
  by (simp_all add: sample_world_def sample_world_with_def)

lemma sample_run:
  "submit sample_world ''work/solution.py'' [''2'', ''1'', ''2''] =
    (sample_selection_trace @
     [SpinnerStart ''Submitting solution...'', ClientOpen,
      Http (POST ''http://localhost:8000/conv2d/modal/h100''
              [(''file'', ''solution.py'', ''x = 1'' @ [CHR 0x0A])] 600),
      ClientClose, SpinnerStop,
      Print ''\<newline>[bold blue]Result:[/bold blue]'', Print ''{...}'',
      Print ''[green]Solution submitted successfully![/green]''], 0)"
proof -
  note sel = sample_selection [OF sample_world_facts(1) sample_world_facts(2)]
  have sr: "submit_and_report sample_world ''work/solution.py''
      (JStr ''conv2d'', JStr ''modal'', JStr ''h100'')
      \<lparr>trace = sample_selection_trace, stdin = []\<rparr> =
    (Ok (), \<lparr>trace = sample_selection_trace @
     [SpinnerStart ''Submitting solution...'', ClientOpen,
      Http (POST ''http://localhost:8000/conv2d/modal/h100''
              [(''file'', ''solution.py'', ''x = 1'' @ [CHR 0x0A])] 600),
      ClientClose, SpinnerStop,
      Print ''\<newline>[bold blue]Result:[/bold blue]'', Print ''{...}'',
      Print ''[green]Solution submitted successfully![/green]''], stdin = []\<rparr>)"
    by (simp add: submit_and_report_apply read_text_def sample_world_def sample_server_def
        ok_response_def sample_bytes_def BASE_URL_def py_str_def basename_def)
  show ?thesis
    by (simp add: submit_def submit_async_def try_block_def bind_def sel sr)
qed

section \<open>How a run ends\<close>

lemma submit_of_select_failure:
  assumes "select_target w filepath \<lparr>trace = [], stdin = input\<rparr> = (r, s1)"
  shows "r = Raise e \<Longrightarrow> submit w filepath input =
      (trace s1 @ [Print (''\<newline>[red]Error: '' @ exn_message e @ ''[/red]'')], 1)"
    and "r = SysExit c \<Longrightarrow> submit w filepath input = (trace s1, c)"
  using assms by (simp_all add: submit_def submit_async_def try_block_def bind_def)

lemma submit_of_report:
  assumes "select_target w filepath \<lparr>trace = [], stdin = input\<rparr> = (Ok t, s1)"
    and "submit_and_report w filepath t s1 = (r, s2)"
  shows "r = Ok u \<Longrightarrow> submit w filepath input = (trace s2, 0)"
    and "r = Raise e \<Longrightarrow> submit w filepath input =
      (trace s2 @ [Print (''\<newline>[red]Error: '' @ exn_message e @ ''[/red]'')], 1)"
  using assms by (simp_all add: submit_def submit_async_def try_block_def bind_def)


lemma select_target_first_fetch_raises:
  assumes "path_exists w filepath"
    and "server w (GET (BASE_URL @ ''/leaderboards'')) = Inl e
       \<or> (\<exists>r. server w (GET (BASE_URL @ ''/leaderboards'')) = Inr r \<and> status_code r = 200
            \<and> (body_json r = Inl e
                \<or> (\<exists>j. body_json r = Inr j \<and> leaderboard_names j = Inl e)))"
  shows "select_target w filepath s =
    (Raise e, s\<lparr>trace := trace s @
       [SpinnerStart ''Fetching available leaderboards...'', ClientOpen,
        Http (GET (BASE_URL @ ''/leaderboards'')), ClientClose, SpinnerStop]\<rparr>)"
  using assms
  by (auto simp: select_target_def with_progress_def bind_def fetch_leaderboards_apply)

lemma names_of_fails:
  "x \<in> set xs \<Longrightarrow> getitem_name x = Inl e0 \<Longrightarrow> \<exists>e. names_of xs = Inl e"
  by (induction xs) (auto split: sum.splits)

lemma names_of_objects:
  "names_of xs = Inl e \<Longrightarrow> \<forall>y \<in> set xs. \<exists>kvs. y = JObj kvs \<Longrightarrow>
     e = KeyError (sq # ''name'' @ [sq])"
  by (induction xs) (auto split: sum.splits option.splits)

section \<open>The claims\<close>

text \<open>
  C5. If the input file path does not exist, the process prints the error and exits
  with status 1, having made no HTTP request of any kind: the whole run is that one
  line on the console.
\<close>

theorem missing_file_no_request:
  assumes "\<not> path_exists w filepath"
  shows "submit w filepath input =
      ([Print (''[red]Error: File '' @ sq # filepath @ [sq] @ '' not found[/red]'')], 1)
    \<and> requests (fst (submit w filepath input)) = []"
  by (simp add: submit_def submit_async_def try_block_def
      bind_SysExit [OF select_target_missing [OF assms]])

theorem missing_file_no_request_witness:
  "\<not> path_exists sample_world ''lost.py''
   \<and> submit sample_world ''lost.py'' [''1''] =
       ([Print ''[red]Error: File 'lost.py' not found[/red]''], 1)
   \<and> requests (fst (submit sample_world ''lost.py'' [''1''])) = []"
  using missing_file_no_request [of sample_world "''lost.py''" "[''1'']"]
  by (simp add: sample_world_def)

text \<open>
  C3. If the call \<^verbatim>\<open>GET /leaderboards\<close> returns a status other than 200, the process
  reports it and exits with status 1; the only request of the run is that one, so
  neither the GPU fetch nor the submission is issued.
\<close>

theorem leaderboard_fetch_failure:
  assumes "path_exists w filepath"
    and "server w (GET (BASE_URL @ ''/leaderboards'')) = Inr r"
    and "status_code r \<noteq> 200"
  shows "submit w filepath input =
      ([SpinnerStart ''Fetching available leaderboards...'', ClientOpen,
        Http (GET (BASE_URL @ ''/leaderboards'')),
        Print ''[red]Failed to fetch leaderboards[/red]'', ClientClose, SpinnerStop], 1)
    \<and> requests (fst (submit w filepath input)) = [GET (BASE_URL @ ''/leaderboards'')]"
  by (simp add: submit_def submit_async_def try_block_def
      bind_SysExit [OF select_target_fetch_failed [OF assms]])

theorem leaderboard_fetch_failure_witness:
  "path_exists (sample_world\<lparr>server := \<lambda>rq. Inr not_found\<rparr>) ''work/solution.py''
   \<and> status_code not_found \<noteq> 200
   \<and> submit (sample_world\<lparr>server := \<lambda>rq. Inr not_found\<rparr>) ''work/solution.py''
       [''2'', ''1'', ''2''] =
       ([SpinnerStart ''Fetching available leaderboards...'', ClientOpen,
         Http (GET ''http://localhost:8000/leaderboards''),
         Print ''[red]Failed to fetch leaderboards[/red]'', ClientClose, SpinnerStop], 1)
   \<and> requests (fst (submit (sample_world\<lparr>server := \<lambda>rq. Inr not_found\<rparr>)
        ''work/solution.py'' [''2'', ''1'', ''2''])) = [GET ''http://localhost:8000/leaderboards'']"
  using leaderboard_fetch_failure [of "sample_world\<lparr>server := \<lambda>rq. Inr not_found\<rparr>"
      "''work/solution.py''" not_found "[''2'', ''1'', ''2'']"]
  by (simp add: sample_world_def not_found_def BASE_URL_def)

text \<open>
  C4. In a run where the file exists and both fetches are answered, let the input be
  three groups of lines, one for each of the leaderboard, runner and GPU menus: any
  number of lines that do not strip to the numeral of a number in the displayed range
  \<open>1..n\<close> of the menu, then one line that strips to the numeral of such a number
  (\<open>i\<close>, \<open>j\<close> and \<open>k\<close>). Then every line of the first kind is consumed and answered by
  showing the prompt again, and nothing else happens for it; the GPU fetch names element
  \<open>i - 1\<close> of the served leaderboard names and element \<open>j - 1\<close> of the runners; and what
  the selection hands on is element \<open>i - 1\<close> of the names, element \<open>j - 1\<close> of the
  runners and element \<open>k - 1\<close> of the served GPUs, each as it was served, passed to
  \<^verbatim>\<open>.lower()\<close>. A line that strips to the numeral of a number outside \<open>1..n\<close> is of
  the first kind.
\<close>

theorem selection_by_index:
  assumes ex: "path_exists w filepath"
    and lb: "server w (GET (BASE_URL @ ''/leaderboards'')) = Inr r1" "status_code r1 = 200"
      "body_json r1 = Inr lbs" "leaderboard_names lbs = Inr names"
    and bad1: "\<forall>l \<in> set bad1. \<forall>m. 1 \<le> m \<and> m \<le> int (length names) \<longrightarrow>
                 py_strip w l \<noteq> str_int m"
    and i: "1 \<le> i" "i \<le> int (length names)" "py_strip w l1 = str_int i"
    and bad2: "\<forall>l \<in> set bad2. \<forall>m. 1 \<le> m \<and> m \<le> int (length runners) \<longrightarrow>
                 py_strip w l \<noteq> str_int m"
    and j: "1 \<le> j" "j \<le> int (length runners)" "py_strip w l2 = str_int j"
    and gp: "server w (GET (BASE_URL @ ''/'' @ py_str w (names ! nat (i - 1)) @ ''/''
                @ py_str w (runners ! nat (j - 1)) @ ''/gpus'')) = Inr r2"
      "status_code r2 = 200" "body_json r2 = Inr (JArr gs)"
    and bad3: "\<forall>l \<in> set bad3. \<forall>m. 1 \<le> m \<and> m \<le> int (length gs) \<longrightarrow>
                 py_strip w l \<noteq> str_int m"
    and k: "1 \<le> k" "k \<le> int (length gs)" "py_strip w l3 = str_int k"
  shows "select_target w filepath
      \<lparr>trace = [], stdin = bad1 @ l1 # bad2 @ l2 # bad3 @ l3 # rest\<rparr> =
    bind (lift (py_lower w (names ! nat (i - 1)))) (\<lambda>selected_leaderboard.
    bind (lift (py_lower w (runners ! nat (j - 1)))) (\<lambda>selected_runner.
    bind (lift (py_lower w (gs ! nat (k - 1)))) (\<lambda>selected_gpu.
    ret (selected_leaderboard, selected_runner, selected_gpu))))
    \<lparr>trace =
       [SpinnerStart ''Fetching available leaderboards...'', ClientOpen,
        Http (GET (BASE_URL @ ''/leaderboards'')), ClientClose, SpinnerStop,
        Print ''\<newline>[bold blue]Available Leaderboards:[/bold blue]'']
       @ map Print (menu_lines w 1 names)
       @ replicate (Suc (length bad1))
           (Ask ''\<newline>Select leaderboard number'' (choices (length names)))
       @ [Print ''\<newline>[bold blue]Available Runners:[/bold blue]'']
       @ map Print (menu_lines w 1 runners)
       @ replicate (Suc (length bad2)) (Ask ''\<newline>Select runner number'' [''1'', ''2''])
       @ [SpinnerStart ''Fetching available GPUs...'', ClientOpen,
          Http (GET (BASE_URL @ ''/'' @ py_str w (names ! nat (i - 1)) @ ''/''
                @ py_str w (runners ! nat (j - 1)) @ ''/gpus'')), ClientClose, SpinnerStop,
          Print ''\<newline>[bold blue]Available GPUs:[/bold blue]'']
       @ map Print (menu_lines w 1 gs)
       @ replicate (Suc (length bad3))
           (Ask ''\<newline>Select GPU number'' (choices (length gs))),
      stdin = rest\<rparr>
   \<and> (\<forall>n l m. py_strip w l = str_int m \<and> (m < 1 \<or> int n < m) \<longrightarrow>
         (\<forall>m'. 1 \<le> m' \<and> m' \<le> int n \<longrightarrow> py_strip w l \<noteq> str_int m'))"
proof (intro conjI allI impI)
  have p1: "prompt_loop w (choices (length names))
      (stdin \<lparr>trace = [], stdin = bad1 @ l1 # bad2 @ l2 # bad3 @ l3 # rest\<rparr>) =
      (Suc (length bad1), Some (i, bad2 @ l2 # bad3 @ l3 # rest))"
    using bad1 i by (simp add: prompt_loop_skip)
  have "prompt_loop w (choices (length runners)) (bad2 @ l2 # bad3 @ l3 # rest) =
      (Suc (length bad2), Some (j, bad3 @ l3 # rest))"
    using bad2 j by (simp add: prompt_loop_skip)
  then have p2: "prompt_loop w [''1'', ''2''] (bad2 @ l2 # bad3 @ l3 # rest) =
      (Suc (length bad2), Some (j, bad3 @ l3 # rest))"
    by (simp add: runners_def choices_Suc_Suc_0)
  have p3: "prompt_loop w (choices (length gs)) (bad3 @ l3 # rest) =
      (Suc (length bad3), Some (k, rest))"
    using bad3 k by (simp add: prompt_loop_skip)
  have gi: "py_getitem (JArr gs) (k - 1) = Inr (gs ! nat (k - 1))"
    using k by (simp add: list_getitem_in_range)
  have it: "py_iter (JArr gs) = Inr gs" "py_len (JArr gs) = Inr (length gs)"
    by simp_all
  show "select_target w filepath
      \<lparr>trace = [], stdin = bad1 @ l1 # bad2 @ l2 # bad3 @ l3 # rest\<rparr> =
    bind (lift (py_lower w (names ! nat (i - 1)))) (\<lambda>selected_leaderboard.
    bind (lift (py_lower w (runners ! nat (j - 1)))) (\<lambda>selected_runner.
    bind (lift (py_lower w (gs ! nat (k - 1)))) (\<lambda>selected_gpu.
    ret (selected_leaderboard, selected_runner, selected_gpu))))
    \<lparr>trace =
       [SpinnerStart ''Fetching available leaderboards...'', ClientOpen,
        Http (GET (BASE_URL @ ''/leaderboards'')), ClientClose, SpinnerStop,
        Print ''\<newline>[bold blue]Available Leaderboards:[/bold blue]'']
       @ map Print (menu_lines w 1 names)
       @ replicate (Suc (length bad1))
           (Ask ''\<newline>Select leaderboard number'' (choices (length names)))
       @ [Print ''\<newline>[bold blue]Available Runners:[/bold blue]'']
       @ map Print (menu_lines w 1 runners)
       @ replicate (Suc (length bad2)) (Ask ''\<newline>Select runner number'' [''1'', ''2''])
       @ [SpinnerStart ''Fetching available GPUs...'', ClientOpen,
          Http (GET (BASE_URL @ ''/'' @ py_str w (names ! nat (i - 1)) @ ''/''
                @ py_str w (runners ! nat (j - 1)) @ ''/gpus'')), ClientClose, SpinnerStop,
          Print ''\<newline>[bold blue]Available GPUs:[/bold blue]'']
       @ map Print (menu_lines w 1 gs)
       @ replicate (Suc (length bad3))
           (Ask ''\<newline>Select GPU number'' (choices (length gs))),
      stdin = rest\<rparr>"
    using select_target_selected [OF ex lb p1 p2 gp it p3 gi]
    by simp
next
  fix n :: nat and l m m'
  assume a: "py_strip w l = str_int m \<and> (m < 1 \<or> int n < m)" and b: "1 \<le> m' \<and> m' \<le> int n"
  show "py_strip w l \<noteq> str_int m'"
  proof
    assume "py_strip w l = str_int m'"
    with a have "m = m'" by (auto dest: str_int_inj)
    with a b show False by simp
  qed
qed

theorem selection_by_index_witness:
  "select_target sample_world ''work/solution.py''
      \<lparr>trace = [], stdin = [''0'', ''3'', '' 2 '', ''x'', ''1'', ''2'', ''y'']\<rparr> =
    (Ok (JStr ''conv2d'', JStr ''modal'', JStr ''h100''),
     \<lparr>trace =
       [SpinnerStart ''Fetching available leaderboards...'', ClientOpen,
        Http (GET ''http://localhost:8000/leaderboards''), ClientClose, SpinnerStop,
        Print ''\<newline>[bold blue]Available Leaderboards:[/bold blue]'',
        Print ''1. MatMul'', Print ''2. Conv2D'',
        Ask ''\<newline>Select leaderboard number'' [''1'', ''2''],
        Ask ''\<newline>Select leaderboard number'' [''1'', ''2''],
        Ask ''\<newline>Select leaderboard number'' [''1'', ''2''],
        Print ''\<newline>[bold blue]Available Runners:[/bold blue]'',
        Print ''1. modal'', Print ''2. github'',
        Ask ''\<newline>Select runner number'' [''1'', ''2''],
        Ask ''\<newline>Select runner number'' [''1'', ''2''],
        SpinnerStart ''Fetching available GPUs...'', ClientOpen,
        Http (GET ''http://localhost:8000/Conv2D/modal/gpus''), ClientClose, SpinnerStop,
        Print ''\<newline>[bold blue]Available GPUs:[/bold blue]'',
        Print ''1. A100'', Print ''2. H100'',
        Ask ''\<newline>Select GPU number'' [''1'', ''2'']],
      stdin = [''y'']\<rparr>)"
proof -
  have zero: "str_int 0 = ''0''"
    by (simp add: str_int_def str_nat.simps digit_char_def)
  have strips: "py_strip sample_world ''0'' = str_int 0" "py_strip sample_world ''3'' = str_int 3"
    "py_strip sample_world '' 2 '' = str_int 2" "py_strip sample_world ''1'' = str_int 1"
    "py_strip sample_world ''2'' = str_int 2"
    by (simp_all add: zero str_int_small py_strip_def is_ascii_def ascii_strip_def is_space_def)
  have x: "\<forall>m. 1 \<le> m \<and> m \<le> 2 \<longrightarrow> py_strip sample_world ''x'' \<noteq> str_int m"
  proof (intro allI impI)
    fix m :: int
    assume "1 \<le> m \<and> m \<le> 2"
    then have "m = 1 \<or> m = 2" by auto
    then show "py_strip sample_world ''x'' \<noteq> str_int m"
      by (auto simp: str_int_small py_strip_def is_ascii_def ascii_strip_def is_space_def)
  qed
  have out: "\<forall>l \<in> set [''0'', ''3'']. \<forall>m. 1 \<le> m \<and> m \<le> 2 \<longrightarrow>
      py_strip sample_world l \<noteq> str_int m"
    using strips by (auto dest: str_int_inj)
  from selection_by_index [where w = sample_world and filepath = "''work/solution.py''"
      and ?r1.0 = "ok_response (JArr [JObj [(''name'', JStr ''MatMul'')],
                                       JObj [(''name'', JStr ''Conv2D'')]])"
      and lbs = "JArr [JObj [(''name'', JStr ''MatMul'')], JObj [(''name'', JStr ''Conv2D'')]]"
      and names = "[JStr ''MatMul'', JStr ''Conv2D'']"
      and ?bad1.0 = "[''0'', ''3'']" and i = 2 and ?l1.0 = "'' 2 ''"
      and ?bad2.0 = "[''x'']" and j = 1 and ?l2.0 = "''1''"
      and ?r2.0 = "ok_response (JArr [JStr ''A100'', JStr ''H100''])"
      and gs = "[JStr ''A100'', JStr ''H100'']"
      and ?bad3.0 = "[]" and k = 2 and ?l3.0 = "''2''" and rest = "[''y'']"]
    strips x out
  show ?thesis
    by (simp add: sample_world_facts sample_server_def ok_response_def BASE_URL_def
        leaderboard_names_def runners_def py_str_def str_int_small choices_Suc_Suc_0
        bind_def lift_def ret_def menu_lines.simps
        str_lower_def is_ascii_def ascii_lower_def lower_char_def)
qed

text \<open>
  C1, as amended. For an existing, readable file and selections within the displayed
  ranges, the requests of the run are the two fetches and one \<^verbatim>\<open>POST\<close> whose path is
  \<^verbatim>\<open>/{leaderboard}/{runner}/{gpu}\<close> with each of the three selections lower-cased by
  \<^verbatim>\<open>str.lower\<close>; when the three are ASCII this is the concatenation with every letter
  \<^verbatim>\<open>A\<close> to \<^verbatim>\<open>Z\<close> replaced by its lower-case letter. The multipart field \<^verbatim>\<open>file\<close>
  carries the base name of the path and the text of the file as a text-mode read returns
  it: decoded, with every \<^verbatim>\<open>\r\n\<close> and \<^verbatim>\<open>\r\<close> turned into \<^verbatim>\<open>\n\<close>.
\<close>

theorem submission_request:
  assumes ex: "path_exists w filepath"
    and lb: "server w (GET (BASE_URL @ ''/leaderboards'')) = Inr r1" "status_code r1 = 200"
      "body_json r1 = Inr lbs" "leaderboard_names lbs = Inr names"
    and p1: "prompt_loop w (choices (length names)) input = (a1, Some (i, in1))"
    and p2: "prompt_loop w [''1'', ''2''] in1 = (a2, Some (j, in2))"
    and s1: "names ! nat (i - 1) = JStr leaderboard"
    and s2: "runners ! nat (j - 1) = JStr runner"
    and gp: "server w (GET (BASE_URL @ ''/'' @ leaderboard @ ''/'' @ runner @ ''/gpus'')) = Inr r2"
      "status_code r2 = 200" "body_json r2 = Inr (JArr gs)"
    and p3: "prompt_loop w (choices (length gs)) in2 = (a3, Some (k, in3))"
    and s3: "gs ! nat (k - 1) = JStr gpu"
    and rd: "read_bytes w filepath = Inr bytes" "decode w bytes = Inr decoded"
  shows "requests (fst (submit w filepath input)) =
    [GET (BASE_URL @ ''/leaderboards''),
     GET (BASE_URL @ ''/'' @ leaderboard @ ''/'' @ runner @ ''/gpus''),
     POST (BASE_URL @ ''/'' @ str_lower w leaderboard @ ''/'' @ str_lower w runner
             @ ''/'' @ str_lower w gpu)
       [(''file'', basename filepath, universal_newlines decoded)] 600]
   \<and> (is_ascii leaderboard \<and> is_ascii runner \<and> is_ascii gpu \<longrightarrow>
        ''/'' @ str_lower w leaderboard @ ''/'' @ str_lower w runner @ ''/'' @ str_lower w gpu =
        ascii_lower (''/'' @ leaderboard @ ''/'' @ runner @ ''/'' @ gpu))"
proof (intro conjI impI)
  note sel = select_target_strings [OF ex lb p1 p2 s1 s2 gp p3 s3]
  from rd have "read_text w filepath = Inr (universal_newlines decoded)"
    by (simp add: read_text_def)
  from run_after_selection [OF sel this] obtain tail where
    "fst (submit w filepath input) = trace \<lparr>trace =
       [SpinnerStart ''Fetching available leaderboards...'', ClientOpen,
        Http (GET (BASE_URL @ ''/leaderboards'')), ClientClose, SpinnerStop,
        Print ''\<newline>[bold blue]Available Leaderboards:[/bold blue]'']
       @ map Print (menu_lines w 1 names)
       @ replicate a1 (Ask ''\<newline>Select leaderboard number'' (choices (length names)))
       @ [Print ''\<newline>[bold blue]Available Runners:[/bold blue]'']
       @ map Print (menu_lines w 1 runners)
       @ replicate a2 (Ask ''\<newline>Select runner number'' [''1'', ''2''])
       @ [SpinnerStart ''Fetching available GPUs...'', ClientOpen,
          Http (GET (BASE_URL @ ''/'' @ leaderboard @ ''/'' @ runner @ ''/gpus'')),
          ClientClose, SpinnerStop,
          Print ''\<newline>[bold blue]Available GPUs:[/bold blue]'']
       @ map Print (menu_lines w 1 gs)
       @ replicate a3 (Ask ''\<newline>Select GPU number'' (choices (length gs))),
      stdin = in3\<rparr> @ [SpinnerStart ''Submitting solution...'', ClientOpen,
          Http (POST (BASE_URL @ ''/'' @ py_str w (JStr (str_lower w leaderboard)) @ ''/''
                 @ py_str w (JStr (str_lower w runner)) @ ''/'' @ py_str w (JStr (str_lower w gpu)))
                 [(''file'', basename filepath, universal_newlines decoded)] 600)] @ tail"
    and "requests tail = []" by blast
  then show "requests (fst (submit w filepath input)) =
    [GET (BASE_URL @ ''/leaderboards''),
     GET (BASE_URL @ ''/'' @ leaderboard @ ''/'' @ runner @ ''/gpus''),
     POST (BASE_URL @ ''/'' @ str_lower w leaderboard @ ''/'' @ str_lower w runner
             @ ''/'' @ str_lower w gpu)
       [(''file'', basename filepath, universal_newlines decoded)] 600]"
    by (simp add: requests_append requests_prints requests_asks py_str_def)
next
  assume "is_ascii leaderboard \<and> is_ascii runner \<and> is_ascii gpu"
  then show "''/'' @ str_lower w leaderboard @ ''/'' @ str_lower w runner @ ''/''
        @ str_lower w gpu = ascii_lower (''/'' @ leaderboard @ ''/'' @ runner @ ''/'' @ gpu)"
    by (simp add: str_lower_def ascii_lower_def lower_char_def)
qed

theorem submission_request_witness:
  "requests (fst (submit (sample_world_with (Inr sample_bytes) (Inr not_found))
      ''work/solution.py'' [''2'', ''1'', ''2''])) =
    [GET ''http://localhost:8000/leaderboards'',
     GET ''http://localhost:8000/Conv2D/modal/gpus'',
     POST ''http://localhost:8000/conv2d/modal/h100''
       [(''file'', ''solution.py'', ''x = 1'' @ [CHR 0x0A])] 600]"
  using submission_request [where w = "sample_world_with (Inr sample_bytes) (Inr not_found)"
      and filepath = "''work/solution.py''" and input = "[''2'', ''1'', ''2'']"
      and ?r1.0 = "ok_response (JArr [JObj [(''name'', JStr ''MatMul'')],
                                       JObj [(''name'', JStr ''Conv2D'')]])"
      and lbs = "JArr [JObj [(''name'', JStr ''MatMul'')], JObj [(''name'', JStr ''Conv2D'')]]"
      and names = "[JStr ''MatMul'', JStr ''Conv2D'']"
      and ?a1.0 = 1 and i = 2 and ?in1.0 = "[''1'', ''2'']"
      and ?a2.0 = 1 and j = 1 and ?in2.0 = "[''2'']"
      and leaderboard = "''Conv2D''" and runner = "''modal''"
      and ?r2.0 = "ok_response (JArr [JStr ''A100'', JStr ''H100''])"
      and gs = "[JStr ''A100'', JStr ''H100'']"
      and ?a3.0 = 1 and k = 2 and ?in3.0 = "[]" and gpu = "''H100''"
      and bytes = sample_bytes and decoded = sample_bytes]
  by (simp add: sample_world_facts sample_server_def ok_response_def BASE_URL_def
      leaderboard_names_def choices_Suc_Suc_0 process_response_sample runners_def
      sample_bytes_def basename_def str_lower_def is_ascii_def ascii_lower_def lower_char_def)

text \<open>
  C1 as stated fails: the field does not carry the exact bytes of the file. In the sample
  world the file holds \<^verbatim>\<open>x = 1\r\n\<close> and the request carries \<^verbatim>\<open>x = 1\n\<close>.
\<close>

theorem exact_bytes_counterexample:
  "read_bytes sample_world ''work/solution.py'' = Inr (''x = 1'' @ [CHR 0x0D, CHR 0x0A])
   \<and> requests (fst (submit sample_world ''work/solution.py'' [''2'', ''1'', ''2''])) =
       [GET ''http://localhost:8000/leaderboards'',
        GET ''http://localhost:8000/Conv2D/modal/gpus'',
        POST ''http://localhost:8000/conv2d/modal/h100''
          [(''file'', ''solution.py'', ''x = 1'' @ [CHR 0x0A])] 600]
   \<and> ''x = 1'' @ [CHR 0x0A] \<noteq> ''x = 1'' @ [CHR 0x0D, CHR 0x0A]"
  by (simp add: sample_run sample_selection_trace_def)
    (simp add: sample_world_def sample_bytes_def)

text \<open>
  C6. In a run that reaches the submission, the GPU fetch is
  \<^verbatim>\<open>GET /{leaderboard}/{runner}/gpus\<close> with the leaderboard name as the server sent it
  and the runner as the fixed list has it; the three strings lower-cased by
  \<^verbatim>\<open>str.lower\<close> appear first in the \<^verbatim>\<open>POST\<close>, which follows the GPU prompt.
\<close>

theorem gpu_fetch_original_case:
  assumes ex: "path_exists w filepath"
    and lb: "server w (GET (BASE_URL @ ''/leaderboards'')) = Inr r1" "status_code r1 = 200"
      "body_json r1 = Inr lbs" "leaderboard_names lbs = Inr names"
    and p1: "prompt_loop w (choices (length names)) input = (a1, Some (i, in1))"
    and p2: "prompt_loop w [''1'', ''2''] in1 = (a2, Some (j, in2))"
    and s1: "names ! nat (i - 1) = JStr leaderboard"
    and s2: "runners ! nat (j - 1) = JStr runner"
    and gp: "server w (GET (BASE_URL @ ''/'' @ leaderboard @ ''/'' @ runner @ ''/gpus'')) = Inr r2"
      "status_code r2 = 200" "body_json r2 = Inr (JArr gs)"
    and p3: "prompt_loop w (choices (length gs)) in2 = (a3, Some (k, in3))"
    and s3: "gs ! nat (k - 1) = JStr gpu"
    and rd: "read_text w filepath = Inr content"
  shows "\<exists>tail. fst (submit w filepath input) =
       [SpinnerStart ''Fetching available leaderboards...'', ClientOpen,
        Http (GET (BASE_URL @ ''/leaderboards'')), ClientClose, SpinnerStop,
        Print ''\<newline>[bold blue]Available Leaderboards:[/bold blue]'']
       @ map Print (menu_lines w 1 names)
       @ replicate a1 (Ask ''\<newline>Select leaderboard number'' (choices (length names)))
       @ [Print ''\<newline>[bold blue]Available Runners:[/bold blue]'']
       @ map Print (menu_lines w 1 runners)
       @ replicate a2 (Ask ''\<newline>Select runner number'' [''1'', ''2''])
       @ [SpinnerStart ''Fetching available GPUs...'', ClientOpen,
          Http (GET (BASE_URL @ ''/'' @ leaderboard @ ''/'' @ runner @ ''/gpus'')),
          ClientClose, SpinnerStop,
          Print ''\<newline>[bold blue]Available GPUs:[/bold blue]'']
       @ map Print (menu_lines w 1 gs)
       @ replicate a3 (Ask ''\<newline>Select GPU number'' (choices (length gs)))
       @ [SpinnerStart ''Submitting solution...'', ClientOpen,
          Http (POST (BASE_URL @ ''/'' @ str_lower w leaderboard @ ''/'' @ str_lower w runner
                        @ ''/'' @ str_lower w gpu)
                 [(''file'', basename filepath, content)] 600)]
       @ tail"
proof -
  note sel = select_target_strings [OF ex lb p1 p2 s1 s2 gp p3 s3]
  from run_after_selection [OF sel rd] show ?thesis
    by (auto simp: py_str_def)
qed

theorem gpu_fetch_original_case_witness:
  "\<exists>tail. fst (submit sample_world ''work/solution.py'' [''2'', ''1'', ''2'']) =
     [SpinnerStart ''Fetching available leaderboards...'', ClientOpen,
      Http (GET ''http://localhost:8000/leaderboards''), ClientClose, SpinnerStop,
      Print ''\<newline>[bold blue]Available Leaderboards:[/bold blue]'',
      Print ''1. MatMul'', Print ''2. Conv2D'',
      Ask ''\<newline>Select leaderboard number'' [''1'', ''2''],
      Print ''\<newline>[bold blue]Available Runners:[/bold blue]'',
      Print ''1. modal'', Print ''2. github'',
      Ask ''\<newline>Select runner number'' [''1'', ''2''],
      SpinnerStart ''Fetching available GPUs...'', ClientOpen,
      Http (GET ''http://localhost:8000/Conv2D/modal/gpus''), ClientClose, SpinnerStop,
      Print ''\<newline>[bold blue]Available GPUs:[/bold blue]'',
      Print ''1. A100'', Print ''2. H100'',
      Ask ''\<newline>Select GPU number'' [''1'', ''2''],
      SpinnerStart ''Submitting solution...'', ClientOpen,
      Http (POST ''http://localhost:8000/conv2d/modal/h100''
              [(''file'', ''solution.py'', ''x = 1'' @ [CHR 0x0A])] 600)] @ tail"
  using gpu_fetch_original_case [where w = sample_world
      and filepath = "''work/solution.py''" and input = "[''2'', ''1'', ''2'']"
      and ?r1.0 = "ok_response (JArr [JObj [(''name'', JStr ''MatMul'')],
                                       JObj [(''name'', JStr ''Conv2D'')]])"
      and lbs = "JArr [JObj [(''name'', JStr ''MatMul'')], JObj [(''name'', JStr ''Conv2D'')]]"
      and names = "[JStr ''MatMul'', JStr ''Conv2D'']"
      and ?a1.0 = 1 and i = 2 and ?in1.0 = "[''1'', ''2'']"
      and ?a2.0 = 1 and j = 1 and ?in2.0 = "[''2'']"
      and leaderboard = "''Conv2D''" and runner = "''modal''"
      and ?r2.0 = "ok_response (JArr [JStr ''A100'', JStr ''H100''])"
      and gs = "[JStr ''A100'', JStr ''H100'']"
      and ?a3.0 = 1 and k = 2 and ?in3.0 = "[]" and gpu = "''H100''"
      and content = "''x = 1'' @ [CHR 0x0A]"]
  by (simp add: sample_world_facts sample_server_def ok_response_def BASE_URL_def
      leaderboard_names_def choices_Suc_Suc_0 process_response_sample runners_def
      read_text_def sample_world_def py_str_def str_int_small
      sample_bytes_def basename_def str_lower_def is_ascii_def ascii_lower_def lower_char_def)





text \<open>
  C9. When opening or reading the file fails, no run issues a \<^verbatim>\<open>POST\<close>, and the exit
  status is 1. A run that has completed the selection then consists of the spinner of
  the submission step, with no client opened, and the line the handler prints for the
  exception of the read.
\<close>

theorem unreadable_file_no_post:
  assumes rd: "read_text w filepath = Inl e"
  shows "list_all (\<lambda>ev. \<not> is_post ev) (fst (submit w filepath input))
    \<and> snd (submit w filepath input) = 1
    \<and> (\<forall>t s1. select_target w filepath \<lparr>trace = [], stdin = input\<rparr> = (Ok t, s1) \<longrightarrow>
          submit w filepath input =
            (trace s1 @ [SpinnerStart ''Submitting solution...'', SpinnerStop,
               Print (''\<newline>[red]Error: '' @ exn_message e @ ''[/red]'')], 1))"
proof -
  have ok: "submit w filepath input =
            (trace s1 @ [SpinnerStart ''Submitting solution...'', SpinnerStop,
               Print (''\<newline>[red]Error: '' @ exn_message e @ ''[/red]'')], 1)"
    if sel: "select_target w filepath \<lparr>trace = [], stdin = input\<rparr> = (Ok t, s1)" for t s1
  proof -
    obtain lb rn g where t: "t = (lb, rn, g)" by (cases t)
    from rd have "submit_and_report w filepath t s1 = (Raise e, s1\<lparr>trace := trace s1 @
          [SpinnerStart ''Submitting solution...'', SpinnerStop]\<rparr>)"
      by (simp add: t submit_and_report_apply)
    from submit_of_report(2) [OF sel this] show ?thesis by simp
  qed
  obtain r0 s1 where sel: "select_target w filepath \<lparr>trace = [], stdin = input\<rparr> = (r0, s1)"
    by (cases "select_target w filepath \<lparr>trace = [], stdin = input\<rparr>")
  note quiet = select_target_no_post(1) [OF sel]
  have "list_all (\<lambda>ev. \<not> is_post ev) (fst (submit w filepath input))
    \<and> snd (submit w filepath input) = 1"
  proof (cases r0)
    case (Ok t)
    with ok [of t s1] sel quiet show ?thesis by simp
  next
    case (Raise e')
    with submit_of_select_failure(1) [OF sel] quiet show ?thesis by simp
  next
    case (SysExit c)
    with select_target_no_post(2) [OF sel] have "c = 1" by simp
    with SysExit submit_of_select_failure(2) [OF sel] quiet show ?thesis by simp
  qed
  with ok show ?thesis by blast
qed

theorem unreadable_file_no_post_witness:
  "list_all (\<lambda>ev. \<not> is_post ev)
     (fst (submit (sample_world_with (Inl (Exn ''FileNotFoundError'' ''gone'')) (Inr not_found))
        ''work/solution.py'' [''2'', ''1'', ''2'']))
   \<and> submit (sample_world_with (Inl (Exn ''FileNotFoundError'' ''gone'')) (Inr not_found))
       ''work/solution.py'' [''2'', ''1'', ''2''] =
     (sample_selection_trace @ [SpinnerStart ''Submitting solution...'', SpinnerStop,
        Print ''\<newline>[red]Error: gone[/red]''], 1)"
proof -
  let ?w = "sample_world_with (Inl (Exn ''FileNotFoundError'' ''gone'')) (Inr not_found)"
  note sel = sample_selection [OF sample_world_facts(3) sample_world_facts(4),
      of "Inl (Exn ''FileNotFoundError'' ''gone'')" "Inr not_found"]
  have rd: "read_text ?w ''work/solution.py'' = Inl (Exn ''FileNotFoundError'' ''gone'')"
    by (simp add: read_text_def sample_world_facts)
  from unreadable_file_no_post [OF rd, of "[''2'', ''1'', ''2'']"] sel
  show ?thesis by (simp add: sample_selection_trace_def)
qed

text \<open>
  C10. If an element of the leaderboards array has no \<^verbatim>\<open>name\<close> to subscript, the run
  is the fetch followed by the handler's line, with status 1: no menu, no prompt and no
  further request. When all elements are objects the message is \<^verbatim>\<open>'name'\<close>, the text
  of the \<^verbatim>\<open>KeyError\<close>.
\<close>

theorem missing_name_stops_before_menu:
  assumes ex: "path_exists w filepath"
    and lb: "server w (GET (BASE_URL @ ''/leaderboards'')) = Inr r" "status_code r = 200"
      "body_json r = Inr (JArr xs)"
    and x: "x \<in> set xs" "getitem_name x = Inl e0"
  shows "(\<exists>e. names_of xs = Inl e \<and> submit w filepath input =
        ([SpinnerStart ''Fetching available leaderboards...'', ClientOpen,
          Http (GET (BASE_URL @ ''/leaderboards'')), ClientClose, SpinnerStop,
          Print (''\<newline>[red]Error: '' @ exn_message e @ ''[/red]'')], 1))
    \<and> ((\<forall>y \<in> set xs. \<exists>kvs. y = JObj kvs) \<longrightarrow> submit w filepath input =
        ([SpinnerStart ''Fetching available leaderboards...'', ClientOpen,
          Http (GET (BASE_URL @ ''/leaderboards'')), ClientClose, SpinnerStop,
          Print (''\<newline>[red]Error: '' @ sq # ''name'' @ [sq] @ ''[/red]'')], 1))"
proof -
  from names_of_fails [OF x] obtain e where e: "names_of xs = Inl e" by blast
  with ex lb have "select_target w filepath \<lparr>trace = [], stdin = input\<rparr> =
    (Raise e, \<lparr>trace = [], stdin = input\<rparr>\<lparr>trace := trace \<lparr>trace = [], stdin = input\<rparr> @
       [SpinnerStart ''Fetching available leaderboards...'', ClientOpen,
        Http (GET (BASE_URL @ ''/leaderboards'')), ClientClose, SpinnerStop]\<rparr>)"
    by (intro select_target_first_fetch_raises) (auto simp: leaderboard_names_def)
  from submit_of_select_failure(1) [OF this] have run: "submit w filepath input =
        ([SpinnerStart ''Fetching available leaderboards...'', ClientOpen,
          Http (GET (BASE_URL @ ''/leaderboards'')), ClientClose, SpinnerStop,
          Print (''\<newline>[red]Error: '' @ exn_message e @ ''[/red]'')], 1)"
    by simp
  moreover have "exn_message e = sq # ''name'' @ [sq]" if "\<forall>y \<in> set xs. \<exists>kvs. y = JObj kvs"
    using names_of_objects [OF e that] by (simp add: KeyError_def)
  ultimately show ?thesis using e by auto
qed

theorem missing_name_stops_before_menu_witness:
  "submit (sample_world\<lparr>server := \<lambda>rq. Inr (ok_response
        (JArr [JObj [(''name'', JStr ''MatMul'')], JObj [(''title'', JStr ''Conv2D'')]]))\<rparr>)
     ''work/solution.py'' [''2'', ''1'', ''2''] =
   ([SpinnerStart ''Fetching available leaderboards...'', ClientOpen,
     Http (GET ''http://localhost:8000/leaderboards''), ClientClose, SpinnerStop,
     Print ''\<newline>[red]Error: 'name'[/red]''], 1)"
  using missing_name_stops_before_menu [where
      w = "sample_world\<lparr>server := \<lambda>rq. Inr (ok_response
        (JArr [JObj [(''name'', JStr ''MatMul'')], JObj [(''title'', JStr ''Conv2D'')]]))\<rparr>"
      and filepath = "''work/solution.py''" and input = "[''2'', ''1'', ''2'']"
      and r = "ok_response
        (JArr [JObj [(''name'', JStr ''MatMul'')], JObj [(''title'', JStr ''Conv2D'')]])"
      and xs = "[JObj [(''name'', JStr ''MatMul'')], JObj [(''title'', JStr ''Conv2D'')]]"
      and x = "JObj [(''title'', JStr ''Conv2D'')]"
      and ?e0.0 = "KeyError (sq # ''name'' @ [sq])"]
  by (simp add: sample_world_def ok_response_def BASE_URL_def KeyError_def)

end
